theory Spec2Isabelle
  imports Complex_Main "HOL-Library.AList"
begin

section \<open>Frames, cells and stores\<close>

text \<open>
  The repository is a batch pipeline over pandas frames and two Zarr stores:
  \<^verbatim>\<open>2_zips_to_zarrs_combined.py\<close> merges daily snapshot archives into the surface store,
  \<^verbatim>\<open>3_produce_iv_dataset_full.py\<close> reads that store and appends a cube of
  market-cap-weighted volatilities to the output store.

  A frame is modelled as the list of its rows and a row as a record of its columns. A
  float64 cell is a real number or NaN (\<open>None\<close>); rounding, overflow and infinite cells
  are outside the model, so arithmetic on cells is arithmetic on reals. A calendar day is
  its day number. The order of the rows of a frame is the order of the list; where pandas
  or xarray reorder rows (sorted group keys, grid order) the model keeps the order of its
  input, and no statement below depends on it. The synthetic \<open>index\<close> column of a stored
  frame is the position of the row in the list.
\<close>

type_synonym date = nat
type_synonym float64 = "real option"

text \<open>
  \<open>drop_duplicates(subset=...)\<close> of pandas keeps the first row of every key.
\<close>

fun drop_duplicates :: "('a \<Rightarrow> 'k) \<Rightarrow> 'a list \<Rightarrow> 'a list" where
  "drop_duplicates key [] = []"
| "drop_duplicates key (x # xs) =
     x # drop_duplicates key (filter (\<lambda>y. key y \<noteq> key x) xs)"

section \<open>Snapshot archives into the surface store\<close>

text \<open>
  A row of the surface store, \<open>KEEP_COLUMNS\<close> after \<open>COLUMN_MAPPING\<close>. The date and the
  numeric columns come from \<open>pd.to_datetime\<close> and \<open>pd.to_numeric\<close> with
  \<open>errors='coerce'\<close>, so each may be missing.
\<close>

record surface_row =
  s_teo :: "date option"
  s_ticker :: string
  s_rate :: float64
  s_years :: float64
  s_atmVol :: float64
  s_atmCen :: float64
  s_atmVega :: float64
  s_slope :: float64
  s_cCnt :: float64
  s_pCnt :: float64
  s_vwidth :: float64












section \<open>Loading and filtering the surface store\<close>

text \<open>
  A row of \<open>df_all\<close>: the columns of \<open>desired_order\<close>, every cell present after
  \<open>dropna()\<close>.
\<close>

record dated =
  teo :: date

record keyed = dated +
  ticker :: string

record df_row = keyed +
  years :: real
  atmCen :: real
  atmVol :: real
  atmVega :: real
  slope :: real
  cCnt :: real
  pCnt :: real
  vwidth :: real

text \<open>
  \<open>ds.to_dataframe().dropna()\<close> drops every row with a missing cell, \<open>rate\<close> included;
  the ticker is a string and never missing.
\<close>

definition dropna_row :: "surface_row \<Rightarrow> df_row option" where
  "dropna_row r =
     (if s_teo r \<noteq> None \<and> s_rate r \<noteq> None \<and> s_years r \<noteq> None \<and> s_atmVol r \<noteq> None \<and>
         s_atmCen r \<noteq> None \<and> s_atmVega r \<noteq> None \<and> s_slope r \<noteq> None \<and> s_cCnt r \<noteq> None \<and>
         s_pCnt r \<noteq> None \<and> s_vwidth r \<noteq> None
      then Some \<lparr>teo = the (s_teo r), ticker = s_ticker r, years = the (s_years r),
                 atmCen = the (s_atmCen r), atmVol = the (s_atmVol r),
                 atmVega = the (s_atmVega r), slope = the (s_slope r),
                 cCnt = the (s_cCnt r), pCnt = the (s_pCnt r), vwidth = the (s_vwidth r)\<rparr>
      else None)"

definition liquid :: "df_row \<Rightarrow> bool" where
  "liquid r \<longleftrightarrow>
     years r > 0.01 \<and> years r < 2 \<and> atmVol r < 1.5 \<and> cCnt r + pCnt r \<ge> 20 \<and> vwidth r \<le> 0.2"

definition load_and_filter_data :: "surface_row list \<Rightarrow> date option \<Rightarrow> df_row list" where
  "load_and_filter_data zarr start_date =
     (let df_all = List.map_filter dropna_row zarr;
          df_all = (case start_date of
                      None \<Rightarrow> df_all
                    | Some d \<Rightarrow> filter (\<lambda>r. teo r \<ge> d) df_all)
      in filter liquid df_all)"

section \<open>Expiry buckets\<close>

definition TARGET_DAYS :: "nat list" where
  "TARGET_DAYS = [30, 60, 90, 120, 180, 270, 360, 540, 720]"

text \<open>
  \<open>np.argmin\<close> scans from the left and moves only to a strictly smaller value, so it
  returns the first index of the minimum; on an empty sequence it raises \<open>ValueError\<close>
  (\<open>None\<close>).
\<close>

fun argmin_scan :: "real list \<Rightarrow> nat \<Rightarrow> nat \<Rightarrow> real \<Rightarrow> nat" where
  "argmin_scan [] i best bv = best"
| "argmin_scan (x # xs) i best bv =
     (if x < bv then argmin_scan xs (Suc i) i x else argmin_scan xs (Suc i) best bv)"

definition np_argmin :: "real list \<Rightarrow> nat option" where
  "np_argmin xs = (case xs of [] \<Rightarrow> None | x # rest \<Rightarrow> Some (argmin_scan rest 1 0 x))"

definition assign_closest_bucket :: "real \<Rightarrow> (nat \<times> real) option" where
  "assign_closest_bucket yrs =
     (let days = yrs * 365;
          diffs = map (\<lambda>tgt. \<bar>days - real tgt\<bar>) TARGET_DAYS
      in case np_argmin diffs of
           None \<Rightarrow> None
         | Some idx \<Rightarrow> Some (TARGET_DAYS ! idx, diffs ! idx))"


text \<open>
  Lines 240 to 250: every row gets its bucket and its distance; \<open>sort_values('days_diff')\<close>
  and \<open>groupby(['teo', 'ticker', 'target_days']).first()\<close> keep, for every date, ticker and
  bucket, the first row in the order of the distance. An exception of
  \<open>assign_closest_bucket\<close> would end the run (\<open>None\<close>). The sort is modelled by the
  stable \<open>sort_key\<close>; which of two rows at the same distance comes first is not fixed by
  pandas' default sort, and nothing below depends on it. The column \<open>days_diff\<close> is dropped
  afterwards and never read again.
\<close>

record bucketed_row = df_row +
  target_days :: nat
  days_diff :: real

definition with_bucket :: "df_row \<Rightarrow> bucketed_row option" where
  "with_bucket r =
     (case assign_closest_bucket (years r) of
        None \<Rightarrow> None
      | Some (tgt, diff) \<Rightarrow>
          Some \<lparr>teo = teo r, ticker = ticker r, years = years r, atmCen = atmCen r,
                atmVol = atmVol r, atmVega = atmVega r, slope = slope r, cCnt = cCnt r,
                pCnt = pCnt r, vwidth = vwidth r, target_days = tgt, days_diff = diff\<rparr>)"

definition closest_per_bucket :: "df_row list \<Rightarrow> bucketed_row list option" where
  "closest_per_bucket df_all =
     (case those (map with_bucket df_all) of
        None \<Rightarrow> None
      | Some df \<Rightarrow>
          Some (drop_duplicates (\<lambda>r. (teo r, ticker r, target_days r))
                  (sort_key days_diff df)))"

section \<open>Pivot, forward volatility and melt\<close>

text \<open>
  A wide frame: an index of (date, ticker) pairs and named columns over it. The columns of
  a pivot are the buckets that occur in the data (integers); the forward columns are
  named by strings \<open>fwd_T1_T2\<close>. Reading a column that the frame does not have raises
  \<open>KeyError\<close>, and so does \<open>melt\<close> on such a column. A cell of the pivot is the value of
  the row with that date, ticker and bucket (there is at most one after
  \<open>closest_per_bucket\<close>), or NaN.
\<close>

datatype py_error = KeyError | ValueError

type_synonym label = "nat + string"
type_synonym column = "date \<times> string \<Rightarrow> float64"

record wide_frame =
  w_index :: "(date \<times> string) list"
  w_columns :: "(label \<times> column) list"

definition pivot_cell ::
  "(bucketed_row \<Rightarrow> real) \<Rightarrow> bucketed_row list \<Rightarrow> nat \<Rightarrow> column" where
  "pivot_cell values df col i =
     map_option values (find (\<lambda>r. (teo r, ticker r) = i \<and> target_days r = col) df)"

definition pivot :: "(bucketed_row \<Rightarrow> real) \<Rightarrow> bucketed_row list \<Rightarrow> wide_frame" where
  "pivot values df =
     \<lparr>w_index = remdups (map (\<lambda>r. (teo r, ticker r)) df),
      w_columns =
        map (\<lambda>col. (Inl col, pivot_cell values df col)) (remdups (map target_days df))\<rparr>"

definition get_column :: "wide_frame \<Rightarrow> label \<Rightarrow> py_error + column" where
  "get_column frame name =
     (case map_of (w_columns frame) name of
        None \<Rightarrow> Inl KeyError
      | Some col \<Rightarrow> Inr col)"

definition set_column :: "wide_frame \<Rightarrow> label \<Rightarrow> column \<Rightarrow> wide_frame" where
  "set_column frame name col = frame\<lparr>w_columns := AList.update name col (w_columns frame)\<rparr>"

text \<open>
  \<open>np.sqrt\<close> of a negative number or of NaN is NaN. Lines 260 to 268 compute, for one
  pair and one index entry, \<open>np.sqrt((c2**2 * T2 - c1**2 * T1) / (T2 - T1))\<close>; a missing
  cell makes the result missing. The two days of a pair differ, so the divisor is not zero.
\<close>

definition np_sqrt :: "float64 \<Rightarrow> float64" where
  "np_sqrt x = (case x of None \<Rightarrow> None | Some r \<Rightarrow> if r < 0 then None else Some (sqrt r))"

definition forward_value :: "nat \<Rightarrow> nat \<Rightarrow> float64 \<Rightarrow> float64 \<Rightarrow> float64" where
  "forward_value T1d T2d c1 c2 =
     (let T1 = real T1d / 365; T2 = real T2d / 365
      in case (c1, c2) of
           (Some v1, Some v2) \<Rightarrow>
             if T2 - T1 = 0 then None
             else np_sqrt (Some ((v2\<^sup>2 * T2 - v1\<^sup>2 * T1) / (T2 - T1)))
         | _ \<Rightarrow> None)"

definition TARGET_PAIRS :: "(nat \<times> nat) list" where
  "TARGET_PAIRS = zip (butlast TARGET_DAYS) (tl TARGET_DAYS)"

text \<open>Python's \<open>str\<close> of a non-negative integer, and the f-string \<open>fwd_{T1d}_{T2d}\<close>.\<close>

definition digit_char :: "nat \<Rightarrow> char" where
  "digit_char d = ''0123456789'' ! d"

fun str_nat :: "nat \<Rightarrow> string" where
  "str_nat n = (if n < 10 then [digit_char n] else str_nat (n div 10) @ [digit_char (n mod 10)])"

declare str_nat.simps [simp del]

definition fwd_col :: "nat \<Rightarrow> nat \<Rightarrow> string" where
  "fwd_col T1d T2d = ''fwd_'' @ str_nat T1d @ ''_'' @ str_nat T2d"

definition add_forward :: "wide_frame \<Rightarrow> nat \<times> nat \<Rightarrow> py_error + wide_frame" where
  "add_forward frame pair =
     (case pair of (T1d, T2d) \<Rightarrow>
        (case get_column frame (Inl T2d) of
           Inl e \<Rightarrow> Inl e
         | Inr c2 \<Rightarrow>
             (case get_column frame (Inl T1d) of
                Inl e \<Rightarrow> Inl e
              | Inr c1 \<Rightarrow>
                  Inr (set_column frame (Inr (fwd_col T1d T2d))
                         (\<lambda>i. forward_value T1d T2d (c1 i) (c2 i))))))"

fun for_each :: "('s \<Rightarrow> 'a \<Rightarrow> py_error + 's) \<Rightarrow> 'a list \<Rightarrow> 's \<Rightarrow> py_error + 's" where
  "for_each body [] s = Inr s"
| "for_each body (x # xs) s =
     (case body s x of Inl e \<Rightarrow> Inl e | Inr s' \<Rightarrow> for_each body xs s')"

definition add_forwards :: "wide_frame \<Rightarrow> py_error + wide_frame" where
  "add_forwards frame = for_each add_forward TARGET_PAIRS frame"

text \<open>
  A row of the long frame. \<open>melt\<close> lists, column after column, one row per index entry;
  the value may be missing until \<open>dropna()\<close>.
\<close>

record melt_row = keyed +
  expiry_label :: label
  value_type :: string
  val :: float64

definition vol_cols :: "label list" where
  "vol_cols = map Inl TARGET_DAYS"

definition fwd_cols :: "label list" where
  "fwd_cols = map (\<lambda>(T1, T2). Inr (fwd_col T1 T2)) TARGET_PAIRS"

fun melt_columns ::
  "wide_frame \<Rightarrow> string \<Rightarrow> label list \<Rightarrow> py_error + melt_row list" where
  "melt_columns frame vt [] = Inr []"
| "melt_columns frame vt (name # names) =
     (case get_column frame name of
        Inl e \<Rightarrow> Inl e
      | Inr col \<Rightarrow>
          (case melt_columns frame vt names of
             Inl e \<Rightarrow> Inl e
           | Inr rows \<Rightarrow>
               Inr (map (\<lambda>i. \<lparr>teo = fst i, ticker = snd i, expiry_label = name,
                                value_type = vt, val = col i\<rparr>) (w_index frame) @ rows)))"

definition melt :: "wide_frame \<Rightarrow> string \<Rightarrow> py_error + melt_row list" where
  "melt frame vt = melt_columns frame vt (vol_cols @ fwd_cols)"

text \<open>Lines 253 to 304: both pivots, their forward columns, both melts, \<open>dropna()\<close>.\<close>

definition long_frame :: "bucketed_row list \<Rightarrow> py_error + melt_row list" where
  "long_frame df_all =
     (case add_forwards (pivot atmVol df_all) of
        Inl e \<Rightarrow> Inl e
      | Inr pivot_vol \<Rightarrow>
          (case add_forwards (pivot atmCen df_all) of
             Inl e \<Rightarrow> Inl e
           | Inr pivot_cen \<Rightarrow>
               (case melt pivot_vol ''atmVol'' of
                  Inl e \<Rightarrow> Inl e
                | Inr vol_melt \<Rightarrow>
                    (case melt pivot_cen ''atmCen'' of
                       Inl e \<Rightarrow> Inl e
                     | Inr cen_melt \<Rightarrow>
                         Inr (filter (\<lambda>m. val m \<noteq> None) (vol_melt @ cen_melt))))))"

text \<open>
  What the long frame holds for a label and an index entry: the pivot cell of a bucket,
  the forward value of a pair.
\<close>

definition long_cell :: "(bucketed_row \<Rightarrow> real) \<Rightarrow> bucketed_row list \<Rightarrow> label \<Rightarrow> column" where
  "long_cell values df name i =
     (case name of
        Inl t \<Rightarrow> pivot_cell values df t i
      | Inr s \<Rightarrow>
          (case find (\<lambda>p. fwd_col (fst p) (snd p) = s) TARGET_PAIRS of
             None \<Rightarrow> None
           | Some p \<Rightarrow>
               forward_value (fst p) (snd p) (pivot_cell values df (fst p) i)
                 (pivot_cell values df (snd p) i)))"

section \<open>Sector, market capitalisation, size and style\<close>

text \<open>
  The two tables of \<^verbatim>\<open>fs_industry_to_gics_sector_map.py\<close>. An industry code of the first
  table may map to \<open>np.nan\<close> (\<open>None\<close>).
\<close>

definition gic_code_to_gic_name :: "(int \<times> string) list" where
  "gic_code_to_gic_name =
     [(10, ''Energy''), (15, ''Materials''), (20, ''Industrials''),
      (25, ''Consumer_Discretionary''), (30, ''Consumer_Staples''), (35, ''Health_Care''),
      (40, ''Financials''), (45, ''Information_Technology''),
      (50, ''Communication_Services''), (55, ''Utilities''), (60, ''Real_Estate''),
      (90, ''Not_Classified'')]"

definition fs_industry_to_gic_code :: "(int \<times> int option) list" where
  "fs_industry_to_gic_code =
     [(1105, Some 15), (1115, Some 15), (1120, Some 15), (1125, Some 15), (1130, Some 15),
      (1135, Some 15), (1205, Some 15), (1210, Some 20), (1220, Some 20), (1225, Some 25),
      (1230, Some 20), (1235, Some 20), (1245, Some 20), (1250, Some 20), (1255, Some 20),
      (1305, Some 45), (1310, Some 45), (1315, Some 45), (1320, Some 45), (1330, Some 20),
      (1340, Some 45), (1345, Some 45), (1352, Some 45), (1355, Some 45), (1405, Some 25),
      (1410, Some 25), (1415, Some 25), (1420, Some 25), (1425, Some 25), (1430, Some 20),
      (1435, Some 25), (1445, Some 25), (2105, Some 10), (2110, Some 10), (2120, Some 10),
      (2125, Some 10), (2205, Some 15), (2210, Some 15), (2215, Some 15), (2220, Some 25),
      (2225, Some 30), (2230, Some 15), (2235, Some 15), (2240, Some 15), (2305, Some 35),
      (2310, Some 35), (2315, Some 35), (2320, Some 35), (2325, Some 35), (2405, Some 30),
      (2410, Some 30), (2415, Some 30), (2420, Some 30), (2425, Some 30), (2430, Some 30),
      (2435, Some 30), (2440, Some 25), (2450, Some 25), (3105, Some 10), (3110, Some 10),
      (3115, Some 20), (3120, Some 20), (3130, Some 10), (3205, Some 20), (3210, Some 25),
      (3215, Some 20), (3220, Some 40), (3235, Some 20), (3255, Some 25), (3260, Some 30),
      (3265, Some 45), (3270, Some 35), (3305, Some 45), (3308, Some 45), (3310, Some 45),
      (3320, Some 45), (3355, Some 35), (3360, Some 35), (3365, Some 35), (3370, Some 35),
      (3405, Some 25), (3410, Some 25), (3415, Some 25), (3420, Some 25), (3425, Some 25),
      (3430, Some 25), (3435, Some 25), (3440, Some 25), (3445, Some 25), (3450, Some 25),
      (3505, Some 30), (3510, Some 30), (3515, Some 25), (3520, Some 25), (3525, Some 25),
      (3530, Some 25), (3535, Some 25), (3540, Some 25), (3545, Some 25), (3550, Some 25),
      (4605, Some 20), (4610, Some 20), (4615, Some 20), (4620, Some 20), (4625, Some 20),
      (4630, Some 20), (4705, Some 55), (4735, Some 55), (4755, Some 55), (4760, Some 55),
      (4805, Some 40), (4810, Some 40), (4825, Some 40), (4830, Some 40), (4840, Some 40),
      (4845, Some 40), (4850, Some 40), (4855, Some 40), (4860, Some 40), (4865, Some 40),
      (4875, Some 40), (4880, Some 40), (4885, Some 60), (4890, Some 60), (4905, Some 50),
      (4910, Some 50), (4915, Some 50), (6005, Some 90), (6010, Some 90), (7005, None),
      (7010, None), (7015, None), (7020, None), (7025, None), (7028, None), (7030, None),
      (7035, None), (9999, None)]"

text \<open>
  The daily ticker dataset is a dense grid over its dates and tickers with an industry
  code and a market capitalisation in every cell, either of which may be NaN. The style
  table is \<open>style_daily\<close> of lines 358 to 421: for a ticker and a day the best-scoring of
  the six style columns, forward-filled, or nothing.
\<close>

record daily_ticker =
  dt_teo :: "date list"
  dt_ticker :: "string list"
  dt_fs_industry_code :: "date \<Rightarrow> string \<Rightarrow> int option"
  dt_mktcap :: "date \<Rightarrow> string \<Rightarrow> float64"

datatype style_factor = Aggressive_Growth | Growth | Value | Deep_Value | GARP | Yield

fun style_name :: "style_factor \<Rightarrow> string" where
  "style_name Aggressive_Growth = ''Aggressive_Growth''"
| "style_name Growth = ''Growth''"
| "style_name Value = ''Value''"
| "style_name Deep_Value = ''Deep_Value''"
| "style_name GARP = ''GARP''"
| "style_name Yield = ''Yield''"

type_synonym style_table = "string \<Rightarrow> date \<Rightarrow> style_factor option"

text \<open>A comparison with NaN is false.\<close>

definition float_ge :: "float64 \<Rightarrow> real \<Rightarrow> bool" where
  "float_ge x c = (case x of None \<Rightarrow> False | Some v \<Rightarrow> v \<ge> c)"

definition classify_size :: "float64 \<Rightarrow> string" where
  "classify_size market_cap =
     (if float_ge market_cap 10000000000 then ''Large Cap''
      else if float_ge market_cap 2000000000 then ''Mid Cap''
      else ''Small Cap'')"

record enriched_row = melt_row +
  fs_industry_code :: int
  gics_sector_code :: int
  gics_sector :: string
  market_cap :: float64
  size_category :: string
  style :: "string option"

text \<open>
  Lines 315 to 356 and 423 to 425 for one row of the long frame: the row survives when
  its date and its ticker are on the grid of the daily ticker dataset, its industry code
  and its value are present, and both table lookups succeed (\<open>Series.map\<close> gives NaN for a
  key the table lacks, \<open>dropna\<close> drops it). The two left merges then add the market
  capitalisation of the grid cell and the style of the day, either of which may be
  missing.
\<close>

definition enrich_row :: "daily_ticker \<Rightarrow> style_table \<Rightarrow> melt_row \<Rightarrow> enriched_row option" where
  "enrich_row ds_daily_ticker style_daily m =
     (if teo m \<in> set (dt_teo ds_daily_ticker) \<and> ticker m \<in> set (dt_ticker ds_daily_ticker)
      then
        (case (dt_fs_industry_code ds_daily_ticker (teo m) (ticker m), val m) of
           (Some code, Some v) \<Rightarrow>
             (case map_of fs_industry_to_gic_code code of
                Some (Some sector_code) \<Rightarrow>
                  (case map_of gic_code_to_gic_name sector_code of
                     Some sector \<Rightarrow>
                       Some \<lparr>teo = teo m, ticker = ticker m, expiry_label = expiry_label m,
                             value_type = value_type m, val = val m,
                             fs_industry_code = code, gics_sector_code = sector_code,
                             gics_sector = sector,
                             market_cap = dt_mktcap ds_daily_ticker (teo m) (ticker m),
                             size_category =
                               classify_size (dt_mktcap ds_daily_ticker (teo m) (ticker m)),
                             style = map_option style_name (style_daily (ticker m) (teo m))\<rparr>
                   | None \<Rightarrow> None)
              | _ \<Rightarrow> None)
         | _ \<Rightarrow> None)
      else None)"

definition enrich :: "daily_ticker \<Rightarrow> style_table \<Rightarrow> melt_row list \<Rightarrow> enriched_row list" where
  "enrich ds_daily_ticker style_daily df_melt =
     List.map_filter (enrich_row ds_daily_ticker style_daily) df_melt"

section \<open>The cube of weighted means\<close>

text \<open>
  A group-by sum skips missing cells, and the sum of no cell is zero. The numerator column
  is \<open>value * market_cap\<close>, missing when either factor is.
\<close>

definition nansum :: "float64 list \<Rightarrow> real" where
  "nansum xs = sum_list (List.map_filter (\<lambda>x. x) xs)"

definition weighted_value_num :: "enriched_row \<Rightarrow> float64" where
  "weighted_value_num r =
     (case (val r, market_cap r) of (Some v, Some mc) \<Rightarrow> Some (v * mc) | _ \<Rightarrow> None)"

text \<open>
  The quotient of two float64 columns: division by zero gives NaN for a zero numerator and
  an infinity otherwise.
\<close>

datatype quotient = Number real | NaN | PosInf | NegInf

definition np_divide :: "real \<Rightarrow> real \<Rightarrow> quotient" where
  "np_divide a b =
     (if b \<noteq> 0 then Number (a / b)
      else if a = 0 then NaN
      else if a > 0 then PosInf
      else NegInf)"

text \<open>
  \<open>ddf.groupby(cols)[['weighted_value_num', 'market_cap']].sum().reset_index()\<close>: one
  row per key that occurs, with both sums over the rows of that key. A row whose key has
  a missing part (\<open>None\<close>) belongs to no group.
\<close>

definition groupby_sum :: "(enriched_row \<Rightarrow> 'k option) \<Rightarrow> enriched_row list \<Rightarrow> ('k \<times> real \<times> real) list" where
  "groupby_sum cols ddf =
     map (\<lambda>k. (k, nansum (map weighted_value_num (filter (\<lambda>r. cols r = Some k) ddf)),
                  nansum (map market_cap (filter (\<lambda>r. cols r = Some k) ddf))))
       (remdups (List.map_filter cols ddf))"

text \<open>
  A row of the cube. The expiry label is an integer or a string until \<open>astype(str)\<close>.
\<close>

record 'l cube_row = dated +
  c_gics_sector :: string
  c_size_category :: string
  c_style :: string
  c_expiry_label :: 'l
  c_value_type :: string
  weighted_value :: quotient

text \<open>Lines 435 to 538: the full-detail group and the seven totals.\<close>

definition agg_main :: "enriched_row list \<Rightarrow> label cube_row list" where
  "agg_main ddf =
     map (\<lambda>((t, sec, siz, sty, lab, vt), num, mc).
            \<lparr>teo = t, c_gics_sector = sec, c_size_category = siz,
                c_style = sty, c_expiry_label = lab, c_value_type = vt,
                weighted_value = np_divide num mc\<rparr>)
       (groupby_sum
          (\<lambda>r. case style r of None \<Rightarrow> None | Some sty \<Rightarrow>
                   Some (teo r, gics_sector r, size_category r, sty, expiry_label r, value_type r)) ddf)"

definition total_all :: "enriched_row list \<Rightarrow> label cube_row list" where
  "total_all ddf =
     map (\<lambda>((t, lab, vt), num, mc).
            \<lparr>teo = t, c_gics_sector = ''Total'', c_size_category = ''Total'',
                c_style = ''Total'', c_expiry_label = lab, c_value_type = vt,
                weighted_value = np_divide num mc\<rparr>)
       (groupby_sum
          (\<lambda>r. Some (teo r, expiry_label r, value_type r)) ddf)"

definition total_sector :: "enriched_row list \<Rightarrow> label cube_row list" where
  "total_sector ddf =
     map (\<lambda>((t, siz, sty, lab, vt), num, mc).
            \<lparr>teo = t, c_gics_sector = ''Total'', c_size_category = siz,
                c_style = sty, c_expiry_label = lab, c_value_type = vt,
                weighted_value = np_divide num mc\<rparr>)
       (groupby_sum
          (\<lambda>r. case style r of None \<Rightarrow> None | Some sty \<Rightarrow>
                   Some (teo r, size_category r, sty, expiry_label r, value_type r)) ddf)"

definition total_size :: "enriched_row list \<Rightarrow> label cube_row list" where
  "total_size ddf =
     map (\<lambda>((t, sec, sty, lab, vt), num, mc).
            \<lparr>teo = t, c_gics_sector = sec, c_size_category = ''Total'',
                c_style = sty, c_expiry_label = lab, c_value_type = vt,
                weighted_value = np_divide num mc\<rparr>)
       (groupby_sum
          (\<lambda>r. case style r of None \<Rightarrow> None | Some sty \<Rightarrow>
                   Some (teo r, gics_sector r, sty, expiry_label r, value_type r)) ddf)"

definition total_style :: "enriched_row list \<Rightarrow> label cube_row list" where
  "total_style ddf =
     map (\<lambda>((t, sec, siz, lab, vt), num, mc).
            \<lparr>teo = t, c_gics_sector = sec, c_size_category = siz,
                c_style = ''Total'', c_expiry_label = lab, c_value_type = vt,
                weighted_value = np_divide num mc\<rparr>)
       (groupby_sum
          (\<lambda>r. Some (teo r, gics_sector r, size_category r, expiry_label r, value_type r)) ddf)"

definition total_sector_size :: "enriched_row list \<Rightarrow> label cube_row list" where
  "total_sector_size ddf =
     map (\<lambda>((t, sty, lab, vt), num, mc).
            \<lparr>teo = t, c_gics_sector = ''Total'', c_size_category = ''Total'',
                c_style = sty, c_expiry_label = lab, c_value_type = vt,
                weighted_value = np_divide num mc\<rparr>)
       (groupby_sum
          (\<lambda>r. case style r of None \<Rightarrow> None | Some sty \<Rightarrow>
                   Some (teo r, sty, expiry_label r, value_type r)) ddf)"

definition total_sector_style :: "enriched_row list \<Rightarrow> label cube_row list" where
  "total_sector_style ddf =
     map (\<lambda>((t, siz, lab, vt), num, mc).
            \<lparr>teo = t, c_gics_sector = ''Total'', c_size_category = siz,
                c_style = ''Total'', c_expiry_label = lab, c_value_type = vt,
                weighted_value = np_divide num mc\<rparr>)
       (groupby_sum
          (\<lambda>r. Some (teo r, size_category r, expiry_label r, value_type r)) ddf)"

definition total_size_style :: "enriched_row list \<Rightarrow> label cube_row list" where
  "total_size_style ddf =
     map (\<lambda>((t, sec, lab, vt), num, mc).
            \<lparr>teo = t, c_gics_sector = sec, c_size_category = ''Total'',
                c_style = ''Total'', c_expiry_label = lab, c_value_type = vt,
                weighted_value = np_divide num mc\<rparr>)
       (groupby_sum
          (\<lambda>r. Some (teo r, gics_sector r, expiry_label r, value_type r)) ddf)"

definition label_str :: "label \<Rightarrow> string" where
  "label_str lab = (case lab of Inl n \<Rightarrow> str_nat n | Inr name \<Rightarrow> name)"

definition astype_str :: "label cube_row \<Rightarrow> string cube_row" where
  "astype_str c =
     \<lparr>teo = teo c, c_gics_sector = c_gics_sector c, c_size_category = c_size_category c,
      c_style = c_style c, c_expiry_label = label_str (c_expiry_label c),
      c_value_type = c_value_type c, weighted_value = weighted_value c\<rparr>"

definition agg_all :: "enriched_row list \<Rightarrow> string cube_row list" where
  "agg_all ddf =
     map astype_str
       (agg_main ddf @ total_all ddf @ total_sector ddf @ total_size ddf @ total_style ddf @
        total_sector_size ddf @ total_sector_style ddf @ total_size_style ddf)"

section \<open>The output store\<close>

text \<open>
  The output store does not exist, holds a frame, or is what an interrupted
  \<open>to_zarr(output_path, mode='w')\<close> left: mode \<open>w\<close> replaces the store in place, so once
  the call has begun the former content is gone, and until it has finished the new
  content is not there. Such a store exists as a path but does not read back as a frame.

  The log is the list of the messages given to the logger; a message built from a count
  carries the count.
\<close>

datatype output_store = Absent | Stored "string cube_row list" | Torn

datatype log_msg = Info string | Info_count string nat | Warning string | Error string

record files =
  output_zarr :: output_store
  temp_zarr :: "string cube_row list option"
  logged :: "log_msg list"

definition natural_key ::
  "string cube_row \<Rightarrow> date \<times> string \<times> string \<times> string \<times> string \<times> string" where
  "natural_key c =
     (teo c, c_gics_sector c, c_size_category c, c_style c, c_expiry_label c, c_value_type c)"

text \<open>
  Where the \<open>try\<close> block of \<open>append_to_existing_output\<close> raises, if it does: while the
  existing store is opened and read, while the frames are combined and de-duplicated, or
  inside the final \<open>to_zarr\<close>.
\<close>

datatype fault = No_fault | Fault_on_read | Fault_on_combine | Fault_on_write

definition write_log :: "log_msg list \<Rightarrow> files \<Rightarrow> files" where
  "write_log msgs fs = fs\<lparr>logged := logged fs @ msgs\<rparr>"

definition fall_back :: "string cube_row list \<Rightarrow> files \<Rightarrow> files" where
  "fall_back new_data fs =
     write_log
       [Warning ''Created temporary dataset at output_path.temp - manual intervention may be needed'',
        Warning ''Original dataset preserved at original location'']
       ((write_log
          [Error ''Error appending to existing dataset'',
           Info ''Falling back to creating new dataset with only new data''] fs)
        \<lparr>temp_zarr := Some new_data\<rparr>)"

definition append_to_existing_output :: "fault \<Rightarrow> string cube_row list \<Rightarrow> files \<Rightarrow> files" where
  "append_to_existing_output fault new_data fs =
     (case output_zarr fs of
        Absent \<Rightarrow>
          write_log [Info ''Successfully created new flat output dataset'']
            ((write_log [Info ''Creating new flat output dataset''] fs)
             \<lparr>output_zarr := Stored new_data\<rparr>)
      | Torn \<Rightarrow>
          fall_back new_data (write_log [Info ''Appending to existing flat output dataset''] fs)
      | Stored df_existing \<Rightarrow>
          (let fs = write_log [Info ''Appending to existing flat output dataset''] fs
           in if fault = Fault_on_read then fall_back new_data fs
              else
                let fs = write_log [Info ''Combining datasets...''] fs;
                    df_combined = drop_duplicates natural_key (df_existing @ new_data)
                in if fault = Fault_on_combine then fall_back new_data fs
                   else if fault = Fault_on_write
                   then fall_back new_data (fs\<lparr>output_zarr := Torn\<rparr>)
                   else
                     write_log [Info ''Successfully appended new data to existing flat output'']
                       (fs\<lparr>output_zarr := Stored df_combined\<rparr>)))"

text \<open>Lines 549 to 566 of \<open>main\<close>.\<close>

definition save_output :: "fault \<Rightarrow> string cube_row list \<Rightarrow> files \<Rightarrow> files" where
  "save_output fault agg fs =
     (case output_zarr fs of
        Absent \<Rightarrow>
          write_log [Info ''Created new flat output dataset'']
            ((write_log [Info ''Creating new output dataset at output_path''] fs)
             \<lparr>output_zarr := Stored agg\<rparr>)
      | _ \<Rightarrow>
          append_to_existing_output fault agg
            (write_log [Info_count ''Appending new records to existing dataset'' (length agg)]
               fs))"

section \<open>One run of the cube script\<close>

text \<open>
  \<open>main\<close> of \<^verbatim>\<open>3_produce_iv_dataset_full.py\<close> from line 213 on. The run is given the rows
  of the surface store, the start date that \<open>--force\<close> and
  \<open>check_incremental_processing_needed\<close> leave (a run which that check ends early changes
  nothing and is not a step here), the two external datasets, and the fault of the append.
  An exception that no \<open>try\<close> catches ends the run where it is raised.
\<close>

record run =
  surface :: "surface_row list"
  start_date :: "date option"
  ds_daily_ticker :: daily_ticker
  style_daily :: style_table
  append_fault :: fault

definition start_messages :: "date option \<Rightarrow> log_msg list" where
  "start_messages start =
     (case start of
        Some d \<Rightarrow>
          [Info ''Filtering data from start_date onwards for incremental processing'',
           Info ''Filtering data from start_date onwards'']
      | None \<Rightarrow> [Info ''Processing all available data''])"

definition enriched_frame :: "run \<Rightarrow> df_row list \<Rightarrow> (py_error + enriched_row list)" where
  "enriched_frame r df_all =
     (case closest_per_bucket df_all of
        None \<Rightarrow> Inl ValueError
      | Some df \<Rightarrow>
          (case long_frame df of
             Inl e \<Rightarrow> Inl e
           | Inr df_melt \<Rightarrow> Inr (enrich (ds_daily_ticker r) (style_daily r) df_melt)))"

definition main_produce :: "run \<Rightarrow> files \<Rightarrow> files" where
  "main_produce r fs =
     (let df_all = load_and_filter_data (surface r) (start_date r);
          fs = write_log
                 (start_messages (start_date r) @
                  [Info_count ''Loaded records after filtering'' (length df_all)]) fs
      in if df_all = [] then write_log [Info ''No data to process after filtering''] fs
         else
           let fs = write_log [Info_count ''Processing records'' (length df_all)] fs
           in case enriched_frame r df_all of
                Inl e \<Rightarrow> fs
              | Inr df \<Rightarrow>
                  write_log [Info ''IV dataset production completed successfully'']
                    (save_output (append_fault r) (agg_all df) fs))"

fun run_all :: "run list \<Rightarrow> files \<Rightarrow> files" where
  "run_all [] fs = fs"
| "run_all (r # rs) fs = run_all rs (main_produce r fs)"

definition no_files :: files where
  "no_files = \<lparr>output_zarr = Absent, temp_zarr = None, logged = []\<rparr>"

section \<open>Notions used in the statements\<close>

type_synonym cube_key = "date \<times> string \<times> string \<times> string \<times> label \<times> string"

definition rolled_key :: "bool \<Rightarrow> bool \<Rightarrow> bool \<Rightarrow> enriched_row \<Rightarrow> cube_key option" where
  "rolled_key all_sectors all_sizes all_styles r =
     (if \<not> all_styles \<and> style r = None then None
      else Some (teo r, if all_sectors then ''Total'' else gics_sector r,
                 if all_sizes then ''Total'' else size_category r,
                 if all_styles then ''Total'' else the (style r),
                 expiry_label r, value_type r))"

definition cube_of :: "cube_key \<times> real \<times> real \<Rightarrow> label cube_row" where
  "cube_of g =
     (case g of ((t, sec, siz, sty, lab, vt), num, mc) \<Rightarrow>
        \<lparr>teo = t, c_gics_sector = sec, c_size_category = siz, c_style = sty,
         c_expiry_label = lab, c_value_type = vt, weighted_value = np_divide num mc\<rparr>)"

definition rolled :: "bool \<Rightarrow> bool \<Rightarrow> bool \<Rightarrow> enriched_row list \<Rightarrow> label cube_row list" where
  "rolled all_sectors all_sizes all_styles ddf =
     map cube_of (groupby_sum (rolled_key all_sectors all_sizes all_styles) ddf)"

definition cube_flags :: "(bool \<times> bool \<times> bool) list" where
  "cube_flags =
     [(False, False, False), (True, True, True), (True, False, False), (False, True, False),
      (False, False, True), (True, True, False), (True, False, True), (False, True, True)]"

definition in_vocabulary :: "enriched_row \<Rightarrow> bool" where
  "in_vocabulary r \<longleftrightarrow>
     gics_sector r \<noteq> ''Total'' \<and> size_category r \<noteq> ''Total'' \<and> style r \<noteq> Some ''Total'' \<and>
     expiry_label r \<in> set (vol_cols @ fwd_cols)"

definition render :: "cube_key \<Rightarrow> date \<times> string \<times> string \<times> string \<times> string \<times> string" where
  "render k = (case k of (t, sec, siz, sty, lab, vt) \<Rightarrow> (t, sec, siz, sty, label_str lab, vt))"

definition key_unique :: "files \<Rightarrow> bool" where
  "key_unique fs =
     (case output_zarr fs of
        Stored rows \<Rightarrow> distinct (map natural_key rows)
      | _ \<Rightarrow> True)"

definition cube_slice :: "date \<Rightarrow> label \<Rightarrow> string \<Rightarrow> enriched_row list \<Rightarrow> enriched_row list" where
  "cube_slice t lab vt ddf =
     filter (\<lambda>r. teo r = t \<and> expiry_label r = lab \<and> value_type r = vt) ddf"

definition sector_sums ::
  "enriched_row list \<Rightarrow> ((date \<times> string \<times> label \<times> string) \<times> real \<times> real) list" where
  "sector_sums ddf =
     groupby_sum (\<lambda>r. Some (teo r, gics_sector r, expiry_label r, value_type r)) ddf"

definition sector_sums_of ::
  "date \<Rightarrow> label \<Rightarrow> string \<Rightarrow> enriched_row list \<Rightarrow> (real \<times> real) list" where
  "sector_sums_of t lab vt ddf =
     map snd (filter (\<lambda>g. case g of ((t', sec, lab', vt'), num, mc) \<Rightarrow>
                            t' = t \<and> lab' = lab \<and> vt' = vt) (sector_sums ddf))"

definition or_zero :: "float64 \<Rightarrow> real" where
  "or_zero x = (case x of None \<Rightarrow> 0 | Some v \<Rightarrow> v)"

definition melt_part :: "enriched_row \<Rightarrow> melt_row" where
  "melt_part e = \<lparr>teo = teo e, ticker = ticker e, expiry_label = expiry_label e,
                   value_type = value_type e, val = val e\<rparr>"

fun counts :: "log_msg list \<Rightarrow> nat list" where
  "counts [] = []"
| "counts (Info_count s n # msgs) = n # counts msgs"
| "counts (m # msgs) = counts msgs"

definition stored_rows :: "files \<Rightarrow> string cube_row list" where
  "stored_rows fs = (case output_zarr fs of Stored rows \<Rightarrow> rows | _ \<Rightarrow> [])"

section \<open>Data for the examples\<close>

definition surface_of_day :: "date \<Rightarrow> string \<Rightarrow> float64 \<Rightarrow> surface_row" where
  "surface_of_day d t cnt =
     \<lparr>s_teo = Some d, s_ticker = t, s_rate = Some 0.05, s_years = Some 0.1,
      s_atmVol = Some 0.2, s_atmCen = Some 0.2, s_atmVega = Some 1, s_slope = Some 0,
      s_cCnt = cnt, s_pCnt = Some 10, s_vwidth = Some 0.1\<rparr>"


text \<open>One ticker on one day with a record in every bucket.\<close>

definition bucketed_example :: "bucketed_row list" where
  "bucketed_example =
     map (\<lambda>(t, v, w). \<lparr>teo = 1, ticker = ''A'', years = real t / 365, atmCen = w, atmVol = v,
                       atmVega = 1, slope = 0, cCnt = 10, pCnt = 10, vwidth = 1 / 10,
                       target_days = t, days_diff = 0\<rparr>)
       [(30, 1 / 5, 3 / 10), (60, 1 / 4, 1 / 5), (90, 1 / 4, 1 / 5), (120, 1 / 4, 1 / 5),
        (180, 1 / 4, 1 / 5), (270, 1 / 4, 1 / 5), (360, 1 / 4, 1 / 5), (540, 1 / 4, 1 / 5),
        (720, 1 / 4, 1 / 5)]"

text \<open>
  The records that the claim on the liquidity and maturity filter speaks of: more than two
  years to expiry, or fewer than twenty contracts.
\<close>

definition long_or_thin :: "surface_row \<Rightarrow> bool" where
  "long_or_thin s \<longleftrightarrow>
     (case s_years s of Some y \<Rightarrow> y > 2 | None \<Rightarrow> False) \<or>
     (case (s_cCnt s, s_pCnt s) of (Some c, Some p) \<Rightarrow> c + p < 20 | _ \<Rightarrow> False)"

definition daily_example :: daily_ticker where
  "daily_example =
     \<lparr>dt_teo = [1], dt_ticker = [''A'', ''B'', ''C'', ''D'', ''F''],
      dt_fs_industry_code =
        (\<lambda>d t. if t = ''A'' then Some 1105 else if t = ''B'' then Some 7005
               else if t = ''D'' then None else Some 1305),
      dt_mktcap =
        (\<lambda>d t. if t = ''A'' then Some 12000000000 else if t = ''F'' then Some 4000000000
               else None)\<rparr>"

definition style_example :: style_table where
  "style_example = (\<lambda>t d. if t = ''A'' then Some Growth else None)"

definition melt_example :: "string \<Rightarrow> real \<Rightarrow> melt_row" where
  "melt_example t v = \<lparr>teo = 1, ticker = t, expiry_label = Inl 30, value_type = ''atmVol'',
                        val = Some v\<rparr>"

definition enriched_example :: "enriched_row list" where
  "enriched_example =
     enrich daily_example style_example
       [melt_example ''A'' (1 / 5), melt_example ''B'' (1 / 5), melt_example ''C'' (1 / 2),
        melt_example ''D'' (1 / 5), melt_example ''E'' (1 / 5), melt_example ''F'' (2 / 5)]"

definition old_cube_example :: "string cube_row" where
  "old_cube_example =
     \<lparr>teo = 0, c_gics_sector = ''Total'', c_size_category = ''Total'', c_style = ''Total'',
      c_expiry_label = ''30'', c_value_type = ''atmVol'', weighted_value = Number (1 / 5)\<rparr>"

definition cube_example :: "string \<Rightarrow> string \<Rightarrow> string \<Rightarrow> quotient \<Rightarrow> string cube_row" where
  "cube_example sec siz sty w =
     \<lparr>teo = 1, c_gics_sector = sec, c_size_category = siz, c_style = sty,
      c_expiry_label = ''30'', c_value_type = ''atmVol'', weighted_value = w\<rparr>"

section \<open>Properties of the surface store merger\<close>










section \<open>Properties of the liquidity and maturity filter\<close>

lemma dropna_row_long_or_thin:
  "dropna_row s = Some r \<Longrightarrow> long_or_thin s \<Longrightarrow> \<not> liquid r"
  by (auto simp: dropna_row_def long_or_thin_def liquid_def split: if_splits option.splits)

lemma load_and_filter_data_member:
  "r \<in> set (load_and_filter_data zarr start) \<Longrightarrow>
   liquid r \<and> (\<exists>s \<in> set zarr. dropna_row s = Some r)"
  by (auto simp: load_and_filter_data_def Let_def map_filter_def split: option.splits)

lemma map_filter_filter:
  "(\<And>x y. x \<in> set xs \<Longrightarrow> f x = Some y \<Longrightarrow> \<not> P x \<Longrightarrow> \<not> Q y) \<Longrightarrow>
   filter Q (List.map_filter f (filter P xs)) = filter Q (List.map_filter f xs)"
  by (induction xs) (auto split: option.splits)

lemma load_and_filter_data_ignores:
  "load_and_filter_data (filter (\<lambda>s. \<not> long_or_thin s) zarr) start =
   load_and_filter_data zarr start"
proof -
  have "filter (\<lambda>r. liquid r \<and> P r) (List.map_filter dropna_row (filter (\<lambda>s. \<not> long_or_thin s) zarr)) =
        filter (\<lambda>r. liquid r \<and> P r) (List.map_filter dropna_row zarr)" for P
    by (rule map_filter_filter) (auto dest: dropna_row_long_or_thin)
  from this [of "\<lambda>r. True"] this [of "\<lambda>r. teo r \<ge> d" for d]
  show ?thesis
    by (cases start) (simp_all add: load_and_filter_data_def Let_def conj_commute)
qed

lemma enriched_frame_surface:
  "enriched_frame (r\<lparr>surface := zarr\<rparr>) df_all = enriched_frame r df_all"
  by (simp add: enriched_frame_def split: option.splits sum.splits)

text \<open>
  C8. A record with more than two years to expiry, or with fewer than twenty contracts,
  contributes to no aggregated row: no row that leaves \<open>load_and_filter_data\<close> has
  \<open>years > 2\<close> or \<open>cCnt + pCnt < 20\<close>, the filtered frame is the same as if every such
  record had been taken out of the surface store beforehand, and so is everything a run
  writes, the output store and the log included.
\<close>

theorem filter_enforced:
  "(\<forall>r \<in> set (load_and_filter_data zarr start). \<not> years r > 2 \<and> \<not> cCnt r + pCnt r < 20) \<and>
   load_and_filter_data (filter (\<lambda>s. \<not> long_or_thin s) zarr) start =
     load_and_filter_data zarr start \<and>
   main_produce (r\<lparr>surface := filter (\<lambda>s. \<not> long_or_thin s) (surface r)\<rparr>) fs =
     main_produce r fs"
proof (intro conjI ballI)
  fix x
  assume "x \<in> set (load_and_filter_data zarr start)"
  then have "liquid x" by (simp add: load_and_filter_data_member)
  then show "\<not> years x > 2" and "\<not> cCnt x + pCnt x < 20"
    by (simp_all add: liquid_def)
next
  show "load_and_filter_data (filter (\<lambda>s. \<not> long_or_thin s) zarr) start =
        load_and_filter_data zarr start"
    by (rule load_and_filter_data_ignores)
next
  show "main_produce (r\<lparr>surface := filter (\<lambda>s. \<not> long_or_thin s) (surface r)\<rparr>) fs =
        main_produce r fs"
    by (simp add: main_produce_def enriched_frame_surface load_and_filter_data_ignores Let_def
        split: sum.splits)
qed

theorem filter_enforced_witness:
  "long_or_thin (surface_of_day 1 ''B'' (Some 5)) \<and>
   map ticker (load_and_filter_data
                 [surface_of_day 1 ''A'' (Some 10), surface_of_day 1 ''B'' (Some 5)] None) =
     [''A''] \<and>
   load_and_filter_data
     (filter (\<lambda>s. \<not> long_or_thin s)
        [surface_of_day 1 ''A'' (Some 10), surface_of_day 1 ''B'' (Some 5)]) None =
   load_and_filter_data [surface_of_day 1 ''A'' (Some 10), surface_of_day 1 ''B'' (Some 5)] None"
  using filter_enforced
    [of "[surface_of_day 1 ''A'' (Some 10), surface_of_day 1 ''B'' (Some 5)]" None]
  by (simp add: long_or_thin_def surface_of_day_def load_and_filter_data_def dropna_row_def
      liquid_def)

section \<open>Properties of the expiry bucketer\<close>






section \<open>Properties of the pivot, the forward columns and the long frame\<close>

lemma pivot_column:
  "map_of (w_columns (pivot values df)) (Inl t) =
   (if t \<in> target_days ` set df then Some (pivot_cell values df t) else None)"
proof -
  have "map_of (map (\<lambda>col. (Inl col :: label, g col)) xs) (Inl t) =
        (if t \<in> set xs then Some (g t) else None)" for xs and g :: "nat \<Rightarrow> column"
    by (induction xs) auto
  then show ?thesis by (simp add: pivot_def)
qed

lemma pivot_column_str: "map_of (w_columns (pivot values df)) (Inr name) = None"
  by (auto simp: pivot_def map_of_eq_None_iff)

lemma add_forward_other:
  "add_forward f p = Inr f' \<Longrightarrow> name \<noteq> Inr (fwd_col (fst p) (snd p)) \<Longrightarrow>
   map_of (w_columns f') name = map_of (w_columns f) name"
  by (auto simp: add_forward_def set_column_def update_conv' split: prod.splits sum.splits)

lemma add_forward_index: "add_forward f p = Inr f' \<Longrightarrow> w_index f' = w_index f"
  by (auto simp: add_forward_def set_column_def split: prod.splits sum.splits)

lemma add_forward_new:
  "add_forward f (a, b) = Inr f' \<Longrightarrow>
   \<exists>c1 c2. map_of (w_columns f) (Inl a) = Some c1 \<and> map_of (w_columns f) (Inl b) = Some c2 \<and>
     map_of (w_columns f') (Inr (fwd_col a b)) = Some (\<lambda>i. forward_value a b (c1 i) (c2 i))"
  by (auto simp: add_forward_def set_column_def get_column_def update_conv'
      split: prod.splits sum.splits option.splits)

lemma for_each_add_forward_other:
  "for_each add_forward ps f = Inr f' \<Longrightarrow>
   name \<notin> (\<lambda>p. Inr (fwd_col (fst p) (snd p))) ` set ps \<Longrightarrow>
   map_of (w_columns f') name = map_of (w_columns f) name"
proof (induction ps arbitrary: f)
  case Nil
  then show ?case by simp
next
  case (Cons p ps)
  from Cons.prems(1) obtain f1 where f1: "add_forward f p = Inr f1"
      and rest: "for_each add_forward ps f1 = Inr f'"
    by (auto split: sum.splits)
  from Cons.prems(2) have "map_of (w_columns f') name = map_of (w_columns f1) name"
    by (intro Cons.IH [OF rest]) auto
  also from Cons.prems(2) f1 have "\<dots> = map_of (w_columns f) name"
    by (intro add_forward_other) auto
  finally show ?case .
qed

lemma for_each_add_forward_index:
  "for_each add_forward ps f = Inr f' \<Longrightarrow> w_index f' = w_index f"
  by (induction ps arbitrary: f) (auto split: sum.splits dest: add_forward_index)

lemma for_each_add_forward_new:
  "for_each add_forward ps f = Inr f' \<Longrightarrow>
   distinct (map (\<lambda>p. fwd_col (fst p) (snd p)) ps) \<Longrightarrow> (a, b) \<in> set ps \<Longrightarrow>
   \<exists>c1 c2. map_of (w_columns f) (Inl a) = Some c1 \<and> map_of (w_columns f) (Inl b) = Some c2 \<and>
     map_of (w_columns f') (Inr (fwd_col a b)) = Some (\<lambda>i. forward_value a b (c1 i) (c2 i))"
proof (induction ps arbitrary: f)
  case Nil
  then show ?case by simp
next
  case (Cons p ps)
  from Cons.prems(1) obtain f1 where f1: "add_forward f p = Inr f1"
      and rest: "for_each add_forward ps f1 = Inr f'"
    by (auto split: sum.splits)
  have old: "map_of (w_columns f1) (Inl t) = map_of (w_columns f) (Inl t)" for t
    using f1 by (rule add_forward_other) simp
  show ?case
  proof (cases "p = (a, b)")
    case True
    with f1 obtain c1 c2 where c: "map_of (w_columns f) (Inl a) = Some c1"
        "map_of (w_columns f) (Inl b) = Some c2"
        "map_of (w_columns f1) (Inr (fwd_col a b)) = Some (\<lambda>i. forward_value a b (c1 i) (c2 i))"
      using add_forward_new by blast
    from Cons.prems(2) True
    have "Inr (fwd_col a b) \<notin> (\<lambda>p. Inr (fwd_col (fst p) (snd p)) :: label) ` set ps"
      by auto
    with rest have "map_of (w_columns f') (Inr (fwd_col a b)) =
                    map_of (w_columns f1) (Inr (fwd_col a b))"
      by (rule for_each_add_forward_other)
    with c show ?thesis by auto
  next
    case False
    with Cons.prems have "(a, b) \<in> set ps" "distinct (map (\<lambda>p. fwd_col (fst p) (snd p)) ps)"
      by auto
    from Cons.IH [OF rest this(2) this(1)] old show ?thesis by simp
  qed
qed

lemma TARGET_PAIRS_eq:
  "TARGET_PAIRS =
     [(30, 60), (60, 90), (90, 120), (120, 180), (180, 270), (270, 360), (360, 540), (540, 720)]"
  by (simp add: TARGET_PAIRS_def TARGET_DAYS_def)

lemma target_day_in_pair:
  "set TARGET_DAYS \<subseteq> fst ` set TARGET_PAIRS \<union> snd ` set TARGET_PAIRS"
  by (simp add: TARGET_PAIRS_eq TARGET_DAYS_def)

lemma distinct_fwd_cols: "distinct (map (\<lambda>p. fwd_col (fst p) (snd p)) TARGET_PAIRS)"
  by (simp add: TARGET_PAIRS_def TARGET_DAYS_def fwd_col_def str_nat.simps digit_char_def)

lemma melt_columns_rows:
  "melt_columns f vt names = Inr rows \<Longrightarrow>
   set rows = {m. \<exists>name \<in> set names. \<exists>i \<in> set (w_index f). \<exists>col.
                 map_of (w_columns f) name = Some col \<and>
                 m = \<lparr>teo = fst i, ticker = snd i, expiry_label = name, value_type = vt,
                      val = col i\<rparr>}"
proof (induction names arbitrary: rows)
  case Nil
  then show ?case by simp
next
  case (Cons name names)
  from Cons.prems obtain col rest where col: "map_of (w_columns f) name = Some col"
      and rest: "melt_columns f vt names = Inr rest"
      and rows: "rows = map (\<lambda>i. \<lparr>teo = fst i, ticker = snd i, expiry_label = name,
                                value_type = vt, val = col i\<rparr>) (w_index f) @ rest"
    by (auto simp: get_column_def split: sum.splits option.splits)
  from Cons.IH [OF rest] col rows show ?case
    by auto
qed

lemma find_distinct_map:
  "distinct (map f xs) \<Longrightarrow> x \<in> set xs \<Longrightarrow> find (\<lambda>y. f y = f x) xs = Some x"
  by (induction xs) (auto simp: image_iff)

lemma long_cell_fwd:
  "(a, b) \<in> set TARGET_PAIRS \<Longrightarrow>
   long_cell values df (Inr (fwd_col a b)) i =
     forward_value a b (pivot_cell values df a i) (pivot_cell values df b i)"
  using find_distinct_map [OF distinct_fwd_cols, of "(a, b)"]
  by (simp add: long_cell_def)

lemma add_forwards_columns:
  assumes "add_forwards (pivot values df) = Inr f" and "name \<in> set (vol_cols @ fwd_cols)"
  shows "map_of (w_columns f) name = Some (long_cell values df name)"
proof -
  from assms(1) have fe: "for_each add_forward TARGET_PAIRS (pivot values df) = Inr f"
    by (simp add: add_forwards_def)
  have old: "map_of (w_columns f) (Inl t) = map_of (w_columns (pivot values df)) (Inl t)" for t
    using fe by (rule for_each_add_forward_other) auto
  have new: "\<exists>c1 c2. map_of (w_columns (pivot values df)) (Inl a) = Some c1 \<and>
       map_of (w_columns (pivot values df)) (Inl b) = Some c2 \<and>
       map_of (w_columns f) (Inr (fwd_col a b)) = Some (\<lambda>i. forward_value a b (c1 i) (c2 i))"
    if "(a, b) \<in> set TARGET_PAIRS" for a b
    using fe distinct_fwd_cols that by (rule for_each_add_forward_new)
  have present: "t \<in> target_days ` set df" if "t \<in> set TARGET_DAYS" for t
  proof -
    from that obtain u where "(t, u) \<in> set TARGET_PAIRS \<or> (u, t) \<in> set TARGET_PAIRS"
      using target_day_in_pair by fastforce
    then show ?thesis
    proof
      assume "(t, u) \<in> set TARGET_PAIRS"
      from new [OF this] show ?thesis
        by (auto simp: pivot_column split: if_splits)
    next
      assume "(u, t) \<in> set TARGET_PAIRS"
      from new [OF this] show ?thesis
        by (auto simp: pivot_column split: if_splits)
    qed
  qed
  from assms(2) consider t where "name = Inl t" "t \<in> set TARGET_DAYS"
    | a b where "name = Inr (fwd_col a b)" "(a, b) \<in> set TARGET_PAIRS"
    by (auto simp: vol_cols_def fwd_cols_def)
  then show ?thesis
  proof cases
    case 1
    with old present show ?thesis
      by (simp add: pivot_column long_cell_def fun_eq_iff)
  next
    case 2
    from new [OF 2(2)] 2 show ?thesis
      by (auto simp: pivot_column long_cell_fwd fun_eq_iff split: if_splits)
  qed
qed

lemma melt_rows:
  assumes "add_forwards (pivot values df) = Inr f" and "melt f vt = Inr rows"
  shows "set rows =
         {m. expiry_label m \<in> set (vol_cols @ fwd_cols) \<and>
             (teo m, ticker m) \<in> (\<lambda>r. (teo r, ticker r)) ` set df \<and> value_type m = vt \<and>
             val m = long_cell values df (expiry_label m) (teo m, ticker m)}"
proof -
  from assms(1) have idx: "w_index f = remdups (map (\<lambda>r. (teo r, ticker r)) df)"
    by (simp add: add_forwards_def for_each_add_forward_index pivot_def)
  from assms(2) have "set rows = {m. \<exists>name \<in> set (vol_cols @ fwd_cols). \<exists>i \<in> set (w_index f). \<exists>col.
                 map_of (w_columns f) name = Some col \<and>
                 m = \<lparr>teo = fst i, ticker = snd i, expiry_label = name, value_type = vt,
                      val = col i\<rparr>}"
    unfolding melt_def by (rule melt_columns_rows)
  also have "\<dots> = {m. \<exists>name \<in> set (vol_cols @ fwd_cols). \<exists>i \<in> set (w_index f).
                 m = \<lparr>teo = fst i, ticker = snd i, expiry_label = name, value_type = vt,
                      val = long_cell values df name i\<rparr>}"
    using add_forwards_columns [OF assms(1)] by auto
  also have "\<dots> = {m. expiry_label m \<in> set (vol_cols @ fwd_cols) \<and>
             (teo m, ticker m) \<in> (\<lambda>r. (teo r, ticker r)) ` set df \<and> value_type m = vt \<and>
             val m = long_cell values df (expiry_label m) (teo m, ticker m)}"
  proof (intro set_eqI iffI; clarsimp simp: idx)
    fix m :: melt_row and r
    assume m: "expiry_label m \<in> set vol_cols \<or> expiry_label m \<in> set fwd_cols"
      "r \<in> set df" "teo m = teo r" "ticker m = ticker r" "vt = value_type m"
      "val m = long_cell values df (expiry_label m) (teo r, ticker r)"
    have "m = \<lparr>teo = teo r, ticker = ticker r, expiry_label = expiry_label m,
               value_type = value_type m,
               val = long_cell values df (expiry_label m) (teo r, ticker r)\<rparr>"
      using m by (cases m) simp
    with m(1,2) show "\<exists>name\<in>set vol_cols \<union> set fwd_cols. \<exists>i\<in>set df.
            m = \<lparr>teo = teo i, ticker = ticker i, expiry_label = name,
                   value_type = value_type m,
                   val = long_cell values df name (teo i, ticker i)\<rparr>"
      by blast
  qed
  finally show ?thesis .
qed

lemma long_frame_rows:
  assumes "long_frame df = Inr rows"
  shows "set rows =
         {m. val m \<noteq> None \<and> expiry_label m \<in> set (vol_cols @ fwd_cols) \<and>
             (teo m, ticker m) \<in> (\<lambda>r. (teo r, ticker r)) ` set df \<and>
             (value_type m = ''atmVol'' \<and>
                val m = long_cell atmVol df (expiry_label m) (teo m, ticker m) \<or>
              value_type m = ''atmCen'' \<and>
                val m = long_cell atmCen df (expiry_label m) (teo m, ticker m))}"
proof -
  from assms obtain pivot_vol pivot_cen vol_melt cen_melt where
    f: "add_forwards (pivot atmVol df) = Inr pivot_vol"
       "add_forwards (pivot atmCen df) = Inr pivot_cen"
    and m: "melt pivot_vol ''atmVol'' = Inr vol_melt" "melt pivot_cen ''atmCen'' = Inr cen_melt"
    and rows: "rows = filter (\<lambda>m. val m \<noteq> None) (vol_melt @ cen_melt)"
    by (auto simp: long_frame_def split: sum.splits)
  show ?thesis
    unfolding rows using melt_rows [OF f(1) m(1)] melt_rows [OF f(2) m(2)]
    by auto
qed

lemma pivot_cell_index:
  "pivot_cell values df t i = Some v \<Longrightarrow> i \<in> (\<lambda>r. (teo r, ticker r)) ` set df"
  by (auto simp: pivot_cell_def find_Some_iff image_iff)

lemma TARGET_PAIRS_less: "(a, b) \<in> set TARGET_PAIRS \<Longrightarrow> a < b"
  by (auto simp: TARGET_PAIRS_eq)

lemma forward_value_Some:
  assumes "T1 < T2"
  shows "forward_value T1 T2 (Some v1) (Some v2) =
         (if (real T2 / 365 * v2\<^sup>2 - real T1 / 365 * v1\<^sup>2) / (real T2 / 365 - real T1 / 365) < 0
          then None
          else Some (sqrt ((real T2 / 365 * v2\<^sup>2 - real T1 / 365 * v1\<^sup>2) /
                           (real T2 / 365 - real T1 / 365))))"
  using assms by (simp add: forward_value_def np_sqrt_def Let_def mult.commute)

lemma fwd_cols_member: "(a, b) \<in> set TARGET_PAIRS \<Longrightarrow> Inr (fwd_col a b) \<in> set fwd_cols"
  by (force simp: fwd_cols_def)

lemma sqrt_example_bounds: "0.2915 < sqrt (17 / 200)" "sqrt (17 / 200) < 0.2916"
  by (rule real_less_rsqrt, simp add: power2_eq_square)
     (rule real_less_lsqrt, simp_all add: power2_eq_square)

lemma forward_example: "forward_value 30 60 (Some (1 / 5)) (Some (1 / 4)) = Some (sqrt (17 / 200))"
  by (simp add: forward_value_def np_sqrt_def Let_def power2_eq_square)

text \<open>
  C1 (amended). Where the long frame is produced and a date and ticker have resolved
  values \<open>v1\<close>, \<open>v2\<close> in the two buckets of an adjacent pair \<open>T1 < T2\<close>, for
  \<open>atmVol\<close> as for \<open>atmCen\<close>: every row of the long frame with the label of the pair has
  the value \<open>sqrt ((T2/365 * v2^2 - T1/365 * v1^2) / (T2/365 - T1/365))\<close>, and there is
  such a row when the radicand is not negative. For 30 and 60 days with values 0.20 and
  0.25 the forward value is \<open>sqrt 0.085\<close>, within 0.0001 of 0.2915.
\<close>

theorem forward_volatility:
  assumes "long_frame df = Inr rows" and "(T1, T2) \<in> set TARGET_PAIRS"
    and "(values, vt) = (atmVol, ''atmVol'') \<or> (values, vt) = (atmCen, ''atmCen'')"
    and "pivot_cell values df T1 (d, tk) = Some v1"
    and "pivot_cell values df T2 (d, tk) = Some v2"
    and "rad = (real T2 / 365 * v2\<^sup>2 - real T1 / 365 * v1\<^sup>2) / (real T2 / 365 - real T1 / 365)"
  shows "T1 < T2 \<and>
         (\<forall>m \<in> set rows.
            teo m = d \<and> ticker m = tk \<and> expiry_label m = Inr (fwd_col T1 T2) \<and>
            value_type m = vt \<longrightarrow> 0 \<le> rad \<and> val m = Some (sqrt rad)) \<and>
         (0 \<le> rad \<longrightarrow>
            \<lparr>teo = d, ticker = tk, expiry_label = Inr (fwd_col T1 T2), value_type = vt,
             val = Some (sqrt rad)\<rparr> \<in> set rows) \<and>
         forward_value 30 60 (Some (1 / 5)) (Some (1 / 4)) = Some (sqrt (17 / 200)) \<and>
         \<bar>sqrt (17 / 200) - 0.2915\<bar> < 0.0001"
proof -
  from assms(2) have less: "T1 < T2"
    by (rule TARGET_PAIRS_less)
  have cell: "long_cell values df (Inr (fwd_col T1 T2)) (d, tk) =
              (if rad < 0 then None else Some (sqrt rad))"
    using assms(2,4,5,6) by (simp add: long_cell_fwd forward_value_Some [OF less])
  have vt: "long_cell atmVol df (Inr (fwd_col T1 T2)) (d, tk) =
              (if rad < 0 then None else Some (sqrt rad))" if "vt = ''atmVol''"
    using that assms(3) cell by auto
  have ct: "long_cell atmCen df (Inr (fwd_col T1 T2)) (d, tk) =
              (if rad < 0 then None else Some (sqrt rad))" if "vt = ''atmCen''"
    using that assms(3) cell by auto
  have idx: "(d, tk) \<in> (\<lambda>r. (teo r, ticker r)) ` set df"
    using assms(4) by (rule pivot_cell_index)
  have a: "0 \<le> rad \<and> val m = Some (sqrt rad)"
    if "m \<in> set rows" "teo m = d" "ticker m = tk" "expiry_label m = Inr (fwd_col T1 T2)"
      "value_type m = vt" for m
    using that vt ct unfolding long_frame_rows [OF assms(1)]
    by (auto split: if_splits)
  have b: "\<lparr>teo = d, ticker = tk, expiry_label = Inr (fwd_col T1 T2), value_type = vt,
             val = Some (sqrt rad)\<rparr> \<in> set rows" if "0 \<le> rad"
    using that vt ct idx assms(3) fwd_cols_member [OF assms(2)]
    unfolding long_frame_rows [OF assms(1)] by auto
  from less a b forward_example sqrt_example_bounds show ?thesis
    by (auto simp: abs_less_iff)
qed

lemma for_each_add_forward_ok:
  "(\<And>a b. (a, b) \<in> set ps \<Longrightarrow>
      map_of (w_columns f) (Inl a) \<noteq> None \<and> map_of (w_columns f) (Inl b) \<noteq> None) \<Longrightarrow>
   \<exists>f'. for_each add_forward ps f = Inr f'"
proof (induction ps arbitrary: f)
  case Nil
  then show ?case by simp
next
  case (Cons p ps)
  obtain a b where p: "p = (a, b)" by (cases p)
  with Cons.prems [of a b] obtain f1 where f1: "add_forward f p = Inr f1"
    by (auto simp: add_forward_def get_column_def split: option.splits)
  have "map_of (w_columns f1) (Inl t) = map_of (w_columns f) (Inl t)" for t
    using f1 by (rule add_forward_other) simp
  with Cons.prems have "\<exists>f'. for_each add_forward ps f1 = Inr f'"
    by (intro Cons.IH) auto
  with f1 show ?case by auto
qed

lemma melt_columns_ok:
  "(\<And>name. name \<in> set names \<Longrightarrow> map_of (w_columns f) name \<noteq> None) \<Longrightarrow>
   \<exists>rows. melt_columns f vt names = Inr rows"
proof (induction names)
  case Nil
  then show ?case by simp
next
  case (Cons name names)
  then obtain rows where "melt_columns f vt names = Inr rows" by auto
  with Cons.prems [of name] show ?case
    by (auto simp: get_column_def split: option.splits)
qed

lemma pairs_of_target_days: "set TARGET_PAIRS \<subseteq> set TARGET_DAYS \<times> set TARGET_DAYS"
  by (simp add: TARGET_PAIRS_eq TARGET_DAYS_def)

lemma pair_in_target_days:
  "(a, b) \<in> set TARGET_PAIRS \<Longrightarrow> a \<in> set TARGET_DAYS \<and> b \<in> set TARGET_DAYS"
  using pairs_of_target_days by blast

lemma melt_pivot_ok:
  assumes "set TARGET_DAYS \<subseteq> target_days ` set df"
  shows "\<exists>f rows. add_forwards (pivot values df) = Inr f \<and> melt f vt = Inr rows"
proof -
  have "\<exists>f. for_each add_forward TARGET_PAIRS (pivot values df) = Inr f"
    using assms by (intro for_each_add_forward_ok) (auto simp: pivot_column dest: pair_in_target_days)
  then obtain f where f: "add_forwards (pivot values df) = Inr f"
    by (auto simp: add_forwards_def)
  have "\<exists>rows. melt_columns f vt (vol_cols @ fwd_cols) = Inr rows"
    by (rule melt_columns_ok) (simp add: add_forwards_columns [OF f])
  with f show ?thesis by (auto simp: melt_def)
qed

lemma long_frame_ok:
  assumes "set TARGET_DAYS \<subseteq> target_days ` set df"
  shows "\<exists>rows. long_frame df = Inr rows"
  using melt_pivot_ok [OF assms, of atmVol "''atmVol''"]
    melt_pivot_ok [OF assms, of atmCen "''atmCen''"]
  by (auto simp: long_frame_def)

lemma long_frame_needs_all:
  assumes "long_frame df = Inr rows"
  shows "set TARGET_DAYS \<subseteq> target_days ` set df"
proof
  fix t assume t: "t \<in> set TARGET_DAYS"
  from assms obtain f where f: "add_forwards (pivot atmVol df) = Inr f"
    by (auto simp: long_frame_def split: sum.splits)
  have old: "map_of (w_columns f) (Inl t) = map_of (w_columns (pivot atmVol df)) (Inl t)"
    using f unfolding add_forwards_def by (rule for_each_add_forward_other) auto
  from t have "Inl t \<in> set (vol_cols @ fwd_cols)" by (simp add: vol_cols_def)
  from add_forwards_columns [OF f this] old show "t \<in> target_days ` set df"
    by (simp add: pivot_column split: if_splits)
qed

lemma bucketed_example_all: "set TARGET_DAYS \<subseteq> target_days ` set bucketed_example"
  by (simp add: bucketed_example_def TARGET_DAYS_def)

lemma ex_cells:
  "pivot_cell atmVol bucketed_example 30 (1, ''A'') = Some (1 / 5)"
  "pivot_cell atmVol bucketed_example 60 (1, ''A'') = Some (1 / 4)"
  by (simp_all add: pivot_cell_def bucketed_example_def)

theorem forward_volatility_witness:
  "(30, 60) \<in> set TARGET_PAIRS \<and>
   pivot_cell atmVol bucketed_example 30 (1, ''A'') = Some (1 / 5) \<and>
   pivot_cell atmVol bucketed_example 60 (1, ''A'') = Some (1 / 4) \<and>
   17 / 200 = (real 60 / 365 * (1 / 4)\<^sup>2 - real 30 / 365 * (1 / 5)\<^sup>2) / (real 60 / 365 - real 30 / 365) \<and>
   \<lparr>teo = 1, ticker = ''A'', expiry_label = Inr (fwd_col 30 60), value_type = ''atmVol'',
    val = Some (sqrt (17 / 200))\<rparr> \<in> set (projr (long_frame bucketed_example))"
proof -
  obtain rows where rows: "long_frame bucketed_example = Inr rows"
    using long_frame_ok [OF bucketed_example_all] by blast
  have pair: "(30, 60) \<in> set TARGET_PAIRS"
    by (simp add: TARGET_PAIRS_eq)
  have rad: "17 / 200 = (real 60 / 365 * (1 / 4)\<^sup>2 - real 30 / 365 * (1 / 5)\<^sup>2) /
                       (real 60 / 365 - real 30 / 365)"
    by (simp add: power2_eq_square)
  have "0 \<le> (17 / 200 :: real) \<longrightarrow>
        \<lparr>teo = 1, ticker = ''A'', expiry_label = Inr (fwd_col 30 60), value_type = ''atmVol'',
         val = Some (sqrt (17 / 200))\<rparr> \<in> set rows"
    using forward_volatility [OF rows pair _ ex_cells rad, of "''atmVol''"] by blast
  then have "\<lparr>teo = 1, ticker = ''A'', expiry_label = Inr (fwd_col 30 60),
              value_type = ''atmVol'', val = Some (sqrt (17 / 200))\<rparr> \<in> set rows"
    by simp
  with rows pair ex_cells rad show ?thesis
    by (simp only: sum.sel simp_thms)
qed

text \<open>
  The figure of the claim as it was stated, 0.2958, is not the forward value of its own
  example: that value is \<open>sqrt 0.085\<close>, below 0.2916.
\<close>

theorem forward_example_not_2958:
  "forward_value 30 60 (Some (1 / 5)) (Some (1 / 4)) = Some (sqrt (17 / 200)) \<and>
   \<bar>sqrt (17 / 200) - 0.2958\<bar> > 0.004"
  using forward_example sqrt_example_bounds by (simp add: abs_if)

section \<open>Properties of the cube\<close>

lemma set_map_filter: "set (List.map_filter f xs) = {y. \<exists>x \<in> set xs. f x = Some y}"
  by (induction xs) (auto split: option.splits)

lemma remdups_map_inj: "inj f \<Longrightarrow> remdups (map f xs) = map f (remdups xs)"
  by (induction xs) (auto simp: inj_def)

lemma map_filter_map_option:
  "List.map_filter (\<lambda>r. map_option h (cols r)) xs = map h (List.map_filter cols xs)"
  by (induction xs) (auto split: option.splits)

lemma groupby_sum_rekey:
  assumes "inj h"
  shows "groupby_sum (\<lambda>r. map_option h (cols r)) ddf =
         map (\<lambda>g. (h (fst g), snd g)) (groupby_sum cols ddf)"
proof -
  have "(map_option h (cols r) = Some (h k)) = (cols r = Some k)" for r k
    using assms by (cases "cols r") (auto simp: inj_def)
  then show ?thesis
    by (simp add: groupby_sum_def map_filter_map_option remdups_map_inj [OF assms] o_def)
qed

lemma agg_main_rolled: "agg_main ddf = rolled False False False ddf"
proof -
  let ?h = "(\<lambda>(t, sec, siz, sty, lab, vt). (t, sec, siz, sty, lab, vt))"
  let ?cols = "(\<lambda>r. case style r of None \<Rightarrow> None | Some sty \<Rightarrow> Some (teo r, gics_sector r, size_category r, sty, expiry_label r, value_type r))"
  have inj: "inj ?h"
    by (auto simp: inj_def)
  have key: "rolled_key False False False = (\<lambda>r. map_option ?h (?cols r))"
    by (auto simp: rolled_key_def fun_eq_iff split: option.splits)
  show ?thesis
    unfolding agg_main_def rolled_def key groupby_sum_rekey [OF inj]
    by (simp add: cube_of_def split_def)
qed

lemma total_all_rolled: "total_all ddf = rolled True True True ddf"
proof -
  let ?h = "(\<lambda>(t, lab, vt). (t, ''Total'', ''Total'', ''Total'', lab, vt))"
  let ?cols = "(\<lambda>r. Some (teo r, expiry_label r, value_type r))"
  have inj: "inj ?h"
    by (auto simp: inj_def)
  have key: "rolled_key True True True = (\<lambda>r. map_option ?h (?cols r))"
    by (auto simp: rolled_key_def fun_eq_iff split: option.splits)
  show ?thesis
    unfolding total_all_def rolled_def key groupby_sum_rekey [OF inj]
    by (simp add: cube_of_def split_def)
qed

lemma total_sector_rolled: "total_sector ddf = rolled True False False ddf"
proof -
  let ?h = "(\<lambda>(t, siz, sty, lab, vt). (t, ''Total'', siz, sty, lab, vt))"
  let ?cols = "(\<lambda>r. case style r of None \<Rightarrow> None | Some sty \<Rightarrow> Some (teo r, size_category r, sty, expiry_label r, value_type r))"
  have inj: "inj ?h"
    by (auto simp: inj_def)
  have key: "rolled_key True False False = (\<lambda>r. map_option ?h (?cols r))"
    by (auto simp: rolled_key_def fun_eq_iff split: option.splits)
  show ?thesis
    unfolding total_sector_def rolled_def key groupby_sum_rekey [OF inj]
    by (simp add: cube_of_def split_def)
qed

lemma total_size_rolled: "total_size ddf = rolled False True False ddf"
proof -
  let ?h = "(\<lambda>(t, sec, sty, lab, vt). (t, sec, ''Total'', sty, lab, vt))"
  let ?cols = "(\<lambda>r. case style r of None \<Rightarrow> None | Some sty \<Rightarrow> Some (teo r, gics_sector r, sty, expiry_label r, value_type r))"
  have inj: "inj ?h"
    by (auto simp: inj_def)
  have key: "rolled_key False True False = (\<lambda>r. map_option ?h (?cols r))"
    by (auto simp: rolled_key_def fun_eq_iff split: option.splits)
  show ?thesis
    unfolding total_size_def rolled_def key groupby_sum_rekey [OF inj]
    by (simp add: cube_of_def split_def)
qed

lemma total_style_rolled: "total_style ddf = rolled False False True ddf"
proof -
  let ?h = "(\<lambda>(t, sec, siz, lab, vt). (t, sec, siz, ''Total'', lab, vt))"
  let ?cols = "(\<lambda>r. Some (teo r, gics_sector r, size_category r, expiry_label r, value_type r))"
  have inj: "inj ?h"
    by (auto simp: inj_def)
  have key: "rolled_key False False True = (\<lambda>r. map_option ?h (?cols r))"
    by (auto simp: rolled_key_def fun_eq_iff split: option.splits)
  show ?thesis
    unfolding total_style_def rolled_def key groupby_sum_rekey [OF inj]
    by (simp add: cube_of_def split_def)
qed

lemma total_sector_size_rolled: "total_sector_size ddf = rolled True True False ddf"
proof -
  let ?h = "(\<lambda>(t, sty, lab, vt). (t, ''Total'', ''Total'', sty, lab, vt))"
  let ?cols = "(\<lambda>r. case style r of None \<Rightarrow> None | Some sty \<Rightarrow> Some (teo r, sty, expiry_label r, value_type r))"
  have inj: "inj ?h"
    by (auto simp: inj_def)
  have key: "rolled_key True True False = (\<lambda>r. map_option ?h (?cols r))"
    by (auto simp: rolled_key_def fun_eq_iff split: option.splits)
  show ?thesis
    unfolding total_sector_size_def rolled_def key groupby_sum_rekey [OF inj]
    by (simp add: cube_of_def split_def)
qed

lemma total_sector_style_rolled: "total_sector_style ddf = rolled True False True ddf"
proof -
  let ?h = "(\<lambda>(t, siz, lab, vt). (t, ''Total'', siz, ''Total'', lab, vt))"
  let ?cols = "(\<lambda>r. Some (teo r, size_category r, expiry_label r, value_type r))"
  have inj: "inj ?h"
    by (auto simp: inj_def)
  have key: "rolled_key True False True = (\<lambda>r. map_option ?h (?cols r))"
    by (auto simp: rolled_key_def fun_eq_iff split: option.splits)
  show ?thesis
    unfolding total_sector_style_def rolled_def key groupby_sum_rekey [OF inj]
    by (simp add: cube_of_def split_def)
qed

lemma total_size_style_rolled: "total_size_style ddf = rolled False True True ddf"
proof -
  let ?h = "(\<lambda>(t, sec, lab, vt). (t, sec, ''Total'', ''Total'', lab, vt))"
  let ?cols = "(\<lambda>r. Some (teo r, gics_sector r, expiry_label r, value_type r))"
  have inj: "inj ?h"
    by (auto simp: inj_def)
  have key: "rolled_key False True True = (\<lambda>r. map_option ?h (?cols r))"
    by (auto simp: rolled_key_def fun_eq_iff split: option.splits)
  show ?thesis
    unfolding total_size_style_def rolled_def key groupby_sum_rekey [OF inj]
    by (simp add: cube_of_def split_def)
qed

lemma agg_all_rolled:
  "agg_all ddf = map astype_str (concat (map (\<lambda>(a, b, c). rolled a b c ddf) cube_flags))"
  by (simp add: agg_all_def cube_flags_def agg_main_rolled total_all_rolled total_sector_rolled
      total_size_rolled total_style_rolled total_sector_size_rolled total_sector_style_rolled
      total_size_style_rolled)

lemma natural_key_cube_of: "natural_key (astype_str (cube_of (k, s))) = render k"
  by (cases k; cases s) (simp add: natural_key_def astype_str_def cube_of_def render_def)

lemma keys_of_rolled:
  "map natural_key (map astype_str (rolled a b c ddf)) =
   map render (remdups (List.map_filter (rolled_key a b c) ddf))"
  by (simp add: rolled_def groupby_sum_def o_def natural_key_cube_of)

lemma distinct_label_strs: "distinct (map label_str (vol_cols @ fwd_cols))"
  by (simp add: vol_cols_def fwd_cols_def TARGET_PAIRS_eq TARGET_DAYS_def label_str_def
      fwd_col_def str_nat.simps digit_char_def)

lemma label_str_inj:
  "x \<in> set (vol_cols @ fwd_cols) \<Longrightarrow> y \<in> set (vol_cols @ fwd_cols) \<Longrightarrow>
   label_str x = label_str y \<Longrightarrow> x = y"
  using distinct_label_strs by (meson distinct_map inj_onD)

lemma rolled_key_vocabulary:
  assumes "\<forall>r \<in> set ddf. in_vocabulary r"
    and "k \<in> set (List.map_filter (rolled_key a b c) ddf)"
  obtains t sec siz sty lab vt where "k = (t, sec, siz, sty, lab, vt)"
    "lab \<in> set (vol_cols @ fwd_cols)" "(sec = ''Total'') = a" "(siz = ''Total'') = b"
    "(sty = ''Total'') = c"
proof -
  from assms(2) obtain r where r: "r \<in> set ddf" "rolled_key a b c r = Some k"
    by (auto simp: set_map_filter)
  with assms(1) have v: "in_vocabulary r" by blast
  obtain t sec siz sty lab vt where k: "k = (t, sec, siz, sty, lab, vt)"
    by (cases k)
  from r(2) v k have "lab \<in> set (vol_cols @ fwd_cols)" "(sec = ''Total'') = a"
    "(siz = ''Total'') = b" "(sty = ''Total'') = c"
    by (auto simp: rolled_key_def in_vocabulary_def split: if_splits)
  with k that show ?thesis by blast
qed

lemma render_inj:
  assumes "\<forall>r \<in> set ddf. in_vocabulary r"
    and "k \<in> set (List.map_filter (rolled_key a b c) ddf)"
    and "k' \<in> set (List.map_filter (rolled_key a' b' c') ddf)"
    and "render k = render k'"
  shows "k = k' \<and> (a, b, c) = (a', b', c')"
proof -
  from assms(1,2) obtain t sec siz sty lab vt where k: "k = (t, sec, siz, sty, lab, vt)"
    "lab \<in> set (vol_cols @ fwd_cols)" "(sec = ''Total'') = a" "(siz = ''Total'') = b"
    "(sty = ''Total'') = c"
    by (rule rolled_key_vocabulary)
  from assms(1,3) obtain t' sec' siz' sty' lab' vt' where k': "k' = (t', sec', siz', sty', lab', vt')"
    "lab' \<in> set (vol_cols @ fwd_cols)" "(sec' = ''Total'') = a'" "(siz' = ''Total'') = b'"
    "(sty' = ''Total'') = c'"
    by (rule rolled_key_vocabulary)
  from assms(4) k(1) k'(1) have eq: "t = t'" "sec = sec'" "siz = siz'" "sty = sty'"
    "label_str lab = label_str lab'" "vt = vt'"
    by (simp_all add: render_def)
  from eq(5) k(2) k'(2) have "lab = lab'"
    by (intro label_str_inj)
  with eq k k' show ?thesis by auto
qed

lemma distinct_concat_blocks:
  assumes "distinct fls"
    and "\<And>fl. fl \<in> set fls \<Longrightarrow> distinct (block fl)"
    and "\<And>fl fl'. fl \<in> set fls \<Longrightarrow> fl' \<in> set fls \<Longrightarrow> fl \<noteq> fl' \<Longrightarrow>
           set (block fl) \<inter> set (block fl') = {}"
  shows "distinct (concat (map block fls))"
  using assms by (induction fls) fastforce+

lemma agg_all_distinct:
  assumes "\<forall>r \<in> set ddf. in_vocabulary r"
  shows "distinct (map natural_key (agg_all ddf))"
proof -
  let ?block = "\<lambda>fl. case fl of (a, b, c) \<Rightarrow>
                  map render (remdups (List.map_filter (rolled_key a b c) ddf))"
  have eq: "map natural_key (agg_all ddf) = concat (map ?block cube_flags)"
    by (simp add: agg_all_rolled map_concat o_def split_def keys_of_rolled [symmetric])
  have "distinct (concat (map ?block cube_flags))"
  proof (rule distinct_concat_blocks)
    show "distinct cube_flags"
      by (simp add: cube_flags_def)
  next
    fix fl :: "bool \<times> bool \<times> bool"
    obtain a b c where fl: "fl = (a, b, c)" by (cases fl)
    have "inj_on render (set (remdups (List.map_filter (rolled_key a b c) ddf)))"
      using render_inj [OF assms] by (auto simp: inj_on_def)
    then show "distinct (?block fl)"
      by (simp add: fl distinct_map)
  next
    fix fl fl' :: "bool \<times> bool \<times> bool"
    assume ne: "fl \<noteq> fl'"
    obtain a b c where fl: "fl = (a, b, c)" by (cases fl)
    obtain a' b' c' where fl': "fl' = (a', b', c')" by (cases fl')
    have False if "x \<in> set (?block fl)" "x \<in> set (?block fl')" for x
    proof -
      from that obtain k k' where "k \<in> set (List.map_filter (rolled_key a b c) ddf)"
        "k' \<in> set (List.map_filter (rolled_key a' b' c') ddf)" "render k = render k'"
        unfolding fl fl' by auto
      from render_inj [OF assms this] ne show False
        by (simp add: fl fl')
    qed
    then show "set (?block fl) \<inter> set (?block fl') = {}"
      by blast
  qed
  with eq show ?thesis by simp
qed

lemma set_drop_duplicates: "set (drop_duplicates key xs) \<subseteq> set xs"
  by (induction key xs rule: drop_duplicates.induct) auto

lemma distinct_drop_duplicates: "distinct (map key (drop_duplicates key xs))"
proof (induction key xs rule: drop_duplicates.induct)
  case (1 key)
  show ?case by simp
next
  case (2 key x xs)
  have "key x \<notin> key ` set (drop_duplicates key (filter (\<lambda>y. key y \<noteq> key x) xs))"
    using set_drop_duplicates [of key "filter (\<lambda>y. key y \<noteq> key x) xs"] by auto
  with 2 show ?case by simp
qed

lemma enrich_row_Some:
  "enrich_row dt sd m = Some e \<longleftrightarrow>
   teo m \<in> set (dt_teo dt) \<and> ticker m \<in> set (dt_ticker dt) \<and> val m \<noteq> None \<and>
   (\<exists>code sector_code sector.
      dt_fs_industry_code dt (teo m) (ticker m) = Some code \<and>
      map_of fs_industry_to_gic_code code = Some (Some sector_code) \<and>
      map_of gic_code_to_gic_name sector_code = Some sector \<and>
      e = \<lparr>teo = teo m, ticker = ticker m, expiry_label = expiry_label m,
            value_type = value_type m, val = val m,
            fs_industry_code = code, gics_sector_code = sector_code, gics_sector = sector,
            market_cap = dt_mktcap dt (teo m) (ticker m),
            size_category = classify_size (dt_mktcap dt (teo m) (ticker m)),
            style = map_option style_name (sd (ticker m) (teo m))\<rparr>)"
  by (auto simp: enrich_row_def split: option.splits)

lemma enrich_member:
  "e \<in> set (enrich dt sd ms) \<longleftrightarrow> (\<exists>m \<in> set ms. enrich_row dt sd m = Some e)"
  by (simp add: enrich_def set_map_filter)

lemma sector_not_Total: "map_of gic_code_to_gic_name c = Some s \<Longrightarrow> s \<noteq> ''Total''"
  by (auto simp: gic_code_to_gic_name_def split: if_splits)

lemma classify_size_not_Total: "classify_size mc \<noteq> ''Total''"
  by (simp add: classify_size_def)

lemma style_name_not_Total: "style_name x \<noteq> ''Total''"
  by (cases x) simp_all

lemma enrich_in_vocabulary:
  assumes "long_frame df = Inr ms" and "e \<in> set (enrich dt sd ms)"
  shows "in_vocabulary e"
proof -
  from assms(2) obtain m where m: "m \<in> set ms" "enrich_row dt sd m = Some e"
    by (auto simp: enrich_member)
  from m(1) have "expiry_label m \<in> set (vol_cols @ fwd_cols)"
    unfolding long_frame_rows [OF assms(1)] by simp
  with m(2) show ?thesis
    by (auto simp: enrich_row_Some in_vocabulary_def sector_not_Total classify_size_not_Total
        style_name_not_Total)
qed

lemma output_write_log [simp]: "output_zarr (write_log msgs fs) = output_zarr fs"
  by (simp add: write_log_def)

lemma key_unique_write_log [simp]: "key_unique (write_log msgs fs) = key_unique fs"
  by (simp add: key_unique_def)

lemma key_unique_fall_back: "key_unique (fall_back new_data fs) = key_unique fs"
  by (simp add: fall_back_def key_unique_def)

lemma append_keeps_key_unique:
  assumes "key_unique fs" and "distinct (map natural_key new_data)"
  shows "key_unique (append_to_existing_output fault new_data fs)"
proof (cases "output_zarr fs")
  case Absent
  with assms(2) show ?thesis
    by (simp add: append_to_existing_output_def key_unique_def)
next
  case (Stored df_existing)
  with assms(1) show ?thesis
    by (simp add: append_to_existing_output_def Let_def key_unique_fall_back)
       (simp add: key_unique_def distinct_drop_duplicates)
next
  case Torn
  with assms(1) show ?thesis
    by (simp add: append_to_existing_output_def key_unique_fall_back)
qed

lemma save_output_keeps_key_unique:
  assumes "key_unique fs" and "distinct (map natural_key agg)"
  shows "key_unique (save_output fault agg fs)"
proof (cases "output_zarr fs")
  case Absent
  with assms(2) show ?thesis
    by (simp add: save_output_def key_unique_def)
next
  case (Stored df_existing)
  with assms show ?thesis
    by (simp add: save_output_def append_keeps_key_unique)
next
  case Torn
  with assms show ?thesis
    by (simp add: save_output_def append_keeps_key_unique)
qed

lemma enriched_frame_distinct:
  assumes "enriched_frame r df_all = Inr df"
  shows "distinct (map natural_key (agg_all df))"
proof -
  from assms obtain b ms where "long_frame b = Inr ms"
    "df = enrich (ds_daily_ticker r) (style_daily r) ms"
    by (auto simp: enriched_frame_def split: option.splits sum.splits)
  then have "\<forall>e \<in> set df. in_vocabulary e"
    using enrich_in_vocabulary by blast
  then show ?thesis
    by (rule agg_all_distinct)
qed

lemma main_produce_keeps_key_unique:
  assumes "key_unique fs"
  shows "key_unique (main_produce r fs)"
  using assms
  by (auto simp: main_produce_def Let_def enriched_frame_distinct
      intro!: save_output_keeps_key_unique split: sum.splits)

lemma run_all_keeps_key_unique: "key_unique fs \<Longrightarrow> key_unique (run_all rs fs)"
  by (induction rs arbitrary: fs) (simp_all add: main_produce_keeps_key_unique)

theorem cube_store_key_unique: "key_unique (run_all rs no_files)"
  by (rule run_all_keeps_key_unique) (simp add: key_unique_def no_files_def)

lemma nansum_map: "nansum (map f xs) = sum_list (map (\<lambda>r. or_zero (f r)) xs)"
  by (induction xs) (auto simp: nansum_def or_zero_def split: option.splits)

lemma sum_groups:
  fixes F :: "'a \<Rightarrow> real"
  assumes "finite K" and "g ` set xs \<subseteq> K"
  shows "(\<Sum>k\<in>K. sum_list (map F (filter (\<lambda>r. g r = k) xs))) = sum_list (map F xs)"
  using assms(2)
proof (induction xs)
  case Nil
  show ?case by simp
next
  case (Cons x xs)
  have "sum_list (map F (filter (\<lambda>r. g r = k) (x # xs))) =
        (if k = g x then F x else 0) + sum_list (map F (filter (\<lambda>r. g r = k) xs))" for k
    by auto
  then have "(\<Sum>k\<in>K. sum_list (map F (filter (\<lambda>r. g r = k) (x # xs)))) =
             (\<Sum>k\<in>K. if k = g x then F x else 0) +
             (\<Sum>k\<in>K. sum_list (map F (filter (\<lambda>r. g r = k) xs)))"
    by (simp add: sum.distrib)
  also have "(\<Sum>k\<in>K. if k = g x then F x else 0) = F x"
    using assms(1) Cons.prems by (simp add: sum.delta)
  also have "(\<Sum>k\<in>K. sum_list (map F (filter (\<lambda>r. g r = k) xs))) = sum_list (map F xs)"
    using Cons by simp
  finally show ?case by simp
qed

lemma sum_list_groups:
  fixes F :: "'a \<Rightarrow> real"
  shows "sum_list (map (\<lambda>k. sum_list (map F (filter (\<lambda>r. g r = k) xs))) (remdups (map g xs))) =
         sum_list (map F xs)"
proof -
  have "sum_list (map (\<lambda>k. sum_list (map F (filter (\<lambda>r. g r = k) xs))) (remdups (map g xs))) =
        (\<Sum>k\<in>set (remdups (map g xs)). sum_list (map F (filter (\<lambda>r. g r = k) xs)))"
    by (rule sum_list_distinct_conv_sum_set) simp
  also have "\<dots> = sum_list (map F xs)"
    by (rule sum_groups) simp_all
  finally show ?thesis .
qed

lemma map_filter_Some: "List.map_filter (\<lambda>r. Some (g r)) xs = map g xs"
  by (induction xs) auto

lemma sector_sums_of_eq:
  "sector_sums_of t lab vt ddf =
   map (\<lambda>k. (nansum (map weighted_value_num
                       (filter (\<lambda>r. gics_sector r = k) (cube_slice t lab vt ddf))),
              nansum (map market_cap
                       (filter (\<lambda>r. gics_sector r = k) (cube_slice t lab vt ddf)))))
     (remdups (map gics_sector (cube_slice t lab vt ddf)))"
proof -
  let ?key = "\<lambda>r. (teo r, gics_sector r, expiry_label r, value_type r)"
  let ?P = "\<lambda>k. case k of (t', sec, lab', vt') \<Rightarrow> t' = t \<and> lab' = lab \<and> vt' = vt"
  let ?inj = "\<lambda>sec. (t, sec, lab, vt)"
  have keys: "filter ?P (remdups (map ?key ddf)) =
              map ?inj (remdups (map gics_sector (cube_slice t lab vt ddf)))"
  proof -
    have "filter ?P (remdups (map ?key ddf)) = remdups (map ?key (filter (\<lambda>r. ?P (?key r)) ddf))"
      by (simp add: remdups_filter [symmetric] filter_map o_def)
    also have "filter (\<lambda>r. ?P (?key r)) ddf = cube_slice t lab vt ddf"
      by (simp add: cube_slice_def)
    also have "map ?key (cube_slice t lab vt ddf) = map ?inj (map gics_sector (cube_slice t lab vt ddf))"
      by (simp add: cube_slice_def)
    also have "remdups (map ?inj (map gics_sector (cube_slice t lab vt ddf))) =
               map ?inj (remdups (map gics_sector (cube_slice t lab vt ddf)))"
      by (rule remdups_map_inj) (simp add: inj_def)
    finally show ?thesis .
  qed
  have rows: "filter (\<lambda>r. teo r = t \<and> gics_sector r = sec \<and> expiry_label r = lab \<and>
                           value_type r = vt) ddf =
              filter (\<lambda>r. gics_sector r = sec) (cube_slice t lab vt ddf)" for sec
    by (auto simp: cube_slice_def intro: filter_cong)
  have "sector_sums_of t lab vt ddf =
        map (\<lambda>k. (nansum (map weighted_value_num (filter (\<lambda>r. ?key r = k) ddf)),
                   nansum (map market_cap (filter (\<lambda>r. ?key r = k) ddf))))
          (filter ?P (remdups (map ?key ddf)))"
    by (simp add: sector_sums_of_def sector_sums_def groupby_sum_def map_filter_Some
        filter_map o_def split_def)
  also have "\<dots> = map (\<lambda>k. (nansum (map weighted_value_num
                       (filter (\<lambda>r. gics_sector r = k) (cube_slice t lab vt ddf))),
              nansum (map market_cap
                       (filter (\<lambda>r. gics_sector r = k) (cube_slice t lab vt ddf)))))
     (remdups (map gics_sector (cube_slice t lab vt ddf)))"
    unfolding keys by (simp add: o_def rows)
  finally show ?thesis .
qed

lemma sector_sums_reconcile:
  "sum_list (map fst (sector_sums_of t lab vt ddf)) =
     nansum (map weighted_value_num (cube_slice t lab vt ddf))"
  "sum_list (map snd (sector_sums_of t lab vt ddf)) =
     nansum (map market_cap (cube_slice t lab vt ddf))"
  by (simp_all add: sector_sums_of_eq o_def nansum_map sum_list_groups)

lemma total_all_member:
  "c \<in> set (total_all ddf) \<longleftrightarrow>
   (\<exists>r \<in> set ddf.
      c = \<lparr>teo = teo r, c_gics_sector = ''Total'', c_size_category = ''Total'',
           c_style = ''Total'', c_expiry_label = expiry_label r, c_value_type = value_type r,
           weighted_value =
             np_divide
               (nansum (map weighted_value_num
                          (cube_slice (teo r) (expiry_label r) (value_type r) ddf)))
               (nansum (map market_cap
                          (cube_slice (teo r) (expiry_label r) (value_type r) ddf)))\<rparr>)"
proof -
  have "filter (\<lambda>r. (teo r, expiry_label r, value_type r) = (t, lab, vt)) ddf =
        cube_slice t lab vt ddf" for t lab vt
    by (simp add: cube_slice_def)
  then show ?thesis
    by (auto simp: total_all_def groupby_sum_def map_filter_Some image_iff)
qed

lemmas example_defs = enrich_def enrich_row_def daily_example_def style_example_def
  melt_example_def fs_industry_to_gic_code_def gic_code_to_gic_name_def classify_size_def
  float_ge_def

lemma total_all_in_agg_all: "c \<in> set (total_all ddf) \<Longrightarrow> astype_str c \<in> set (agg_all ddf)"
  by (simp add: agg_all_def)

lemma nansum_all_present:
  "\<forall>r \<in> set xs. f r \<noteq> None \<Longrightarrow> nansum (map f xs) = (\<Sum>r\<leftarrow>xs. the (f r))"
  by (induction xs) (auto simp: nansum_def)

lemma weighted_value_num_present:
  "val r \<noteq> None \<Longrightarrow> market_cap r \<noteq> None \<Longrightarrow>
   weighted_value_num r = Some (the (val r) * the (market_cap r))"
  by (auto simp: weighted_value_num_def)

theorem grand_total_weighted_mean:
  "(\<forall>r \<in> set ddf. \<exists>c \<in> set (total_all ddf).
      teo c = teo r \<and> c_expiry_label c = expiry_label r \<and> c_value_type c = value_type r) \<and>
   (\<forall>c \<in> set (total_all ddf).
      c_gics_sector c = ''Total'' \<and> c_size_category c = ''Total'' \<and> c_style c = ''Total'' \<and>
      astype_str c \<in> set (agg_all ddf) \<and>
      (let slice = cube_slice (teo c) (c_expiry_label c) (c_value_type c) ddf;
           sectors = sector_sums_of (teo c) (c_expiry_label c) (c_value_type c) ddf
       in slice \<noteq> [] \<and>
          weighted_value c =
            np_divide (nansum (map weighted_value_num slice)) (nansum (map market_cap slice)) \<and>
          weighted_value c = np_divide (sum_list (map fst sectors)) (sum_list (map snd sectors)) \<and>
          ((\<forall>r \<in> set slice. val r \<noteq> None \<and> market_cap r \<noteq> None) \<and>
           (\<Sum>r\<leftarrow>slice. the (market_cap r)) \<noteq> 0 \<longrightarrow>
           weighted_value c =
             Number ((\<Sum>r\<leftarrow>slice. the (val r) * the (market_cap r)) /
                     (\<Sum>r\<leftarrow>slice. the (market_cap r))))))"
proof (intro conjI ballI)
  fix r assume r: "r \<in> set ddf"
  let ?c = "\<lparr>teo = teo r, c_gics_sector = ''Total'', c_size_category = ''Total'',
           c_style = ''Total'', c_expiry_label = expiry_label r, c_value_type = value_type r,
           weighted_value =
             np_divide
               (nansum (map weighted_value_num
                          (cube_slice (teo r) (expiry_label r) (value_type r) ddf)))
               (nansum (map market_cap
                          (cube_slice (teo r) (expiry_label r) (value_type r) ddf)))\<rparr>"
  from r have "?c \<in> set (total_all ddf)"
    unfolding total_all_member by blast
  then show "\<exists>c \<in> set (total_all ddf).
      teo c = teo r \<and> c_expiry_label c = expiry_label r \<and> c_value_type c = value_type r"
    by (rule rev_bexI) simp
next
  fix c assume c: "c \<in> set (total_all ddf)"
  then obtain r where r: "r \<in> set ddf" and ceq:
    "c = \<lparr>teo = teo r, c_gics_sector = ''Total'', c_size_category = ''Total'',
          c_style = ''Total'', c_expiry_label = expiry_label r, c_value_type = value_type r,
          weighted_value =
            np_divide
              (nansum (map weighted_value_num
                         (cube_slice (teo r) (expiry_label r) (value_type r) ddf)))
              (nansum (map market_cap
                         (cube_slice (teo r) (expiry_label r) (value_type r) ddf)))\<rparr>"
    unfolding total_all_member by blast
  let ?slice = "cube_slice (teo r) (expiry_label r) (value_type r) ddf"
  from ceq show "c_gics_sector c = ''Total''" "c_size_category c = ''Total''"
    "c_style c = ''Total''"
    by simp_all
  from c show "astype_str c \<in> set (agg_all ddf)"
    by (rule total_all_in_agg_all)
  have key: "teo c = teo r" "c_expiry_label c = expiry_label r" "c_value_type c = value_type r"
    using ceq by simp_all
  have ne: "?slice \<noteq> []"
    using r by (auto simp: cube_slice_def filter_empty_conv)
  have w: "weighted_value c =
           np_divide (nansum (map weighted_value_num ?slice)) (nansum (map market_cap ?slice))"
    using ceq by simp
  have full: "weighted_value c =
             Number ((\<Sum>r\<leftarrow>?slice. the (val r) * the (market_cap r)) /
                     (\<Sum>r\<leftarrow>?slice. the (market_cap r)))"
    if "\<forall>r \<in> set ?slice. val r \<noteq> None \<and> market_cap r \<noteq> None"
      "(\<Sum>r\<leftarrow>?slice. the (market_cap r)) \<noteq> 0"
  proof -
    from that(1) have "nansum (map market_cap ?slice) = (\<Sum>r\<leftarrow>?slice. the (market_cap r))"
      by (intro nansum_all_present) simp
    moreover have "nansum (map weighted_value_num ?slice) =
        (\<Sum>r\<leftarrow>?slice. the (val r) * the (market_cap r))"
    proof -
      have "or_zero (weighted_value_num x) = the (val x) * the (market_cap x)"
        if "x \<in> set ?slice" for x
        using that \<open>\<forall>r \<in> set ?slice. val r \<noteq> None \<and> market_cap r \<noteq> None\<close>
        by (simp add: weighted_value_num_present or_zero_def)
      then have "map (\<lambda>r. or_zero (weighted_value_num r)) ?slice =
                 map (\<lambda>r. the (val r) * the (market_cap r)) ?slice"
        by (intro map_cong) simp_all
      then show ?thesis
        unfolding nansum_map by (rule arg_cong)
    qed
    ultimately show ?thesis
      using w that(2) by (simp add: np_divide_def)
  qed
  show "let slice = cube_slice (teo c) (c_expiry_label c) (c_value_type c) ddf;
           sectors = sector_sums_of (teo c) (c_expiry_label c) (c_value_type c) ddf
       in slice \<noteq> [] \<and>
          weighted_value c =
            np_divide (nansum (map weighted_value_num slice)) (nansum (map market_cap slice)) \<and>
          weighted_value c = np_divide (sum_list (map fst sectors)) (sum_list (map snd sectors)) \<and>
          ((\<forall>r \<in> set slice. val r \<noteq> None \<and> market_cap r \<noteq> None) \<and>
           (\<Sum>r\<leftarrow>slice. the (market_cap r)) \<noteq> 0 \<longrightarrow>
           weighted_value c =
             Number ((\<Sum>r\<leftarrow>slice. the (val r) * the (market_cap r)) /
                     (\<Sum>r\<leftarrow>slice. the (market_cap r))))"
    unfolding Let_def key sector_sums_reconcile using ne w full by blast
qed

section \<open>Properties of undefined values, enrichment and the output store\<close>

lemma rolled_key_all: "(a, b, c) \<in> set cube_flags"
  by (cases a; cases b; cases c) (simp_all add: cube_flags_def)

lemma group_row_in_agg_all:
  assumes "(k, num, mc) \<in> set (groupby_sum (rolled_key a b c) ddf)"
  shows "\<exists>row \<in> set (agg_all ddf). natural_key row = render k \<and> weighted_value row = np_divide num mc"
proof -
  let ?row = "astype_str (cube_of (k, num, mc))"
  from assms have "cube_of (k, num, mc) \<in> set (rolled a b c ddf)"
    by (auto simp: rolled_def)
  with rolled_key_all [of a b c] have "?row \<in> set (agg_all ddf)"
    unfolding agg_all_rolled by force
  moreover have "natural_key ?row = render k"
    by (rule natural_key_cube_of)
  moreover have "weighted_value ?row = np_divide num mc"
    by (cases k) (simp add: astype_str_def cube_of_def)
  ultimately show ?thesis by blast
qed

lemma groupby_sum_member:
  "(k, num, mc) \<in> set (groupby_sum cols ddf) \<longleftrightarrow>
   (\<exists>r \<in> set ddf. cols r = Some k) \<and>
   num = nansum (map weighted_value_num (filter (\<lambda>r. cols r = Some k) ddf)) \<and>
   mc = nansum (map market_cap (filter (\<lambda>r. cols r = Some k) ddf))"
  by (auto simp: groupby_sum_def set_map_filter)

lemma np_divide_zero: "np_divide num 0 \<in> {NaN, PosInf, NegInf}"
  by (simp add: np_divide_def)

lemma nansum_all_missing: "\<forall>r \<in> set xs. f r = None \<Longrightarrow> nansum (map f xs) = 0"
  by (induction xs) (auto simp: nansum_def)

lemma weighted_value_num_missing: "market_cap r = None \<Longrightarrow> weighted_value_num r = None"
  by (simp add: weighted_value_num_def split: option.splits)

lemma save_output_creates:
  "output_zarr fs = Absent \<Longrightarrow> output_zarr (save_output fault agg fs) = Stored agg"
  by (simp add: save_output_def)

lemma enrich_from_melt:
  assumes "e \<in> set (enrich dt sd ms)"
  shows "melt_part e \<in> set ms"
proof -
  from assms obtain m where m: "m \<in> set ms" "enrich_row dt sd m = Some e"
    by (auto simp: enrich_member)
  from m(2) have "melt_part e = m"
    by (cases m) (auto simp: enrich_row_Some melt_part_def)
  with m(1) show ?thesis by simp
qed

lemma forward_negative_excluded:
  assumes "long_frame df = Inr rows" and "(T1, T2) \<in> set TARGET_PAIRS"
    and "(values, vt) = (atmVol, ''atmVol'') \<or> (values, vt) = (atmCen, ''atmCen'')"
    and "pivot_cell values df T1 (d, tk) = Some v1"
    and "pivot_cell values df T2 (d, tk) = Some v2"
    and "(real T2 / 365 * v2\<^sup>2 - real T1 / 365 * v1\<^sup>2) / (real T2 / 365 - real T1 / 365) < 0"
    and "m \<in> set rows"
  shows "\<not> (teo m = d \<and> ticker m = tk \<and> expiry_label m = Inr (fwd_col T1 T2) \<and> value_type m = vt)"
proof
  assume key: "teo m = d \<and> ticker m = tk \<and> expiry_label m = Inr (fwd_col T1 T2) \<and> value_type m = vt"
  from assms(2) have less: "T1 < T2"
    by (rule TARGET_PAIRS_less)
  have "long_cell values df (Inr (fwd_col T1 T2)) (d, tk) = None"
    using assms(2,4,5,6) by (simp add: long_cell_fwd forward_value_Some [OF less])
  with assms(3) have "vt = ''atmVol'' \<Longrightarrow> long_cell atmVol df (Inr (fwd_col T1 T2)) (d, tk) = None"
    "vt = ''atmCen'' \<Longrightarrow> long_cell atmCen df (Inr (fwd_col T1 T2)) (d, tk) = None"
    by auto
  with assms(7) key show False
    unfolding long_frame_rows [OF assms(1)] by auto
qed

theorem undefined_values_not_defaulted:
  "(long_frame df = Inr rows \<and> (T1, T2) \<in> set TARGET_PAIRS \<and>
    ((values, vt) = (atmVol, ''atmVol'') \<or> (values, vt) = (atmCen, ''atmCen'')) \<and>
    pivot_cell values df T1 (d, tk) = Some v1 \<and> pivot_cell values df T2 (d, tk) = Some v2 \<and>
    (real T2 / 365 * v2\<^sup>2 - real T1 / 365 * v1\<^sup>2) / (real T2 / 365 - real T1 / 365) < 0 \<longrightarrow>
    forward_value T1 T2 (Some v1) (Some v2) = None \<and>
    (\<forall>m \<in> set rows.
       \<not> (teo m = d \<and> ticker m = tk \<and> expiry_label m = Inr (fwd_col T1 T2) \<and>
          value_type m = vt)) \<and>
    (\<forall>e \<in> set (enrich dt sd rows).
       \<not> (teo e = d \<and> ticker e = tk \<and> expiry_label e = Inr (fwd_col T1 T2) \<and>
          value_type e = vt))) \<and>
   (\<forall>g \<in> set (groupby_sum (rolled_key a b c) ddf).
      case g of (k, num, mc) \<Rightarrow>
        mc = 0 \<longrightarrow>
        (\<exists>row \<in> set (agg_all ddf).
           natural_key row = render k \<and> weighted_value row = np_divide num 0 \<and>
           weighted_value row \<in> {NaN, PosInf, NegInf} \<and>
           ((\<forall>r \<in> set ddf. rolled_key a b c r = Some k \<longrightarrow> market_cap r = None) \<longrightarrow>
            weighted_value row = NaN) \<and>
           (output_zarr fs = Absent \<longrightarrow>
            row \<in> set (stored_rows (save_output fault (agg_all ddf) fs)))))"
proof (intro conjI impI ballI)
  assume h: "long_frame df = Inr rows \<and> (T1, T2) \<in> set TARGET_PAIRS \<and>
    ((values, vt) = (atmVol, ''atmVol'') \<or> (values, vt) = (atmCen, ''atmCen'')) \<and>
    pivot_cell values df T1 (d, tk) = Some v1 \<and> pivot_cell values df T2 (d, tk) = Some v2 \<and>
    (real T2 / 365 * v2\<^sup>2 - real T1 / 365 * v1\<^sup>2) / (real T2 / 365 - real T1 / 365) < 0"
  then have less: "T1 < T2"
    by (simp add: TARGET_PAIRS_less)
  from h show "forward_value T1 T2 (Some v1) (Some v2) = None"
    by (simp add: forward_value_Some [OF less])
  show no_melt: "\<not> (teo m = d \<and> ticker m = tk \<and> expiry_label m = Inr (fwd_col T1 T2) \<and> value_type m = vt)"
    if "m \<in> set rows" for m
    using h that by (intro forward_negative_excluded [of df rows T1 T2 "values" vt d tk v1 v2]) simp_all
  show "\<not> (teo e = d \<and> ticker e = tk \<and> expiry_label e = Inr (fwd_col T1 T2) \<and> value_type e = vt)"
    if "e \<in> set (enrich dt sd rows)" for e
    using no_melt [OF enrich_from_melt [OF that]] by (simp add: melt_part_def)
next
  fix g assume g: "g \<in> set (groupby_sum (rolled_key a b c) ddf)"
  obtain k num mc where geq: "g = (k, num, mc)"
    by (cases g)
  have "\<exists>row \<in> set (agg_all ddf).
           natural_key row = render k \<and> weighted_value row = np_divide num 0 \<and>
           weighted_value row \<in> {NaN, PosInf, NegInf} \<and>
           ((\<forall>r \<in> set ddf. rolled_key a b c r = Some k \<longrightarrow> market_cap r = None) \<longrightarrow>
            weighted_value row = NaN) \<and>
           (output_zarr fs = Absent \<longrightarrow>
            row \<in> set (stored_rows (save_output fault (agg_all ddf) fs)))"
    if mc: "mc = 0"
  proof -
    from g geq mc obtain row where row: "row \<in> set (agg_all ddf)" "natural_key row = render k"
      "weighted_value row = np_divide num 0"
      using group_row_in_agg_all by blast
    have "num = 0" if "\<forall>r \<in> set ddf. rolled_key a b c r = Some k \<longrightarrow> market_cap r = None"
    proof -
      from g geq have "num = nansum (map weighted_value_num (filter (\<lambda>r. rolled_key a b c r = Some k) ddf))"
        by (simp add: groupby_sum_member)
      also have "\<dots> = 0"
        using that by (intro nansum_all_missing) (simp add: weighted_value_num_missing)
      finally show ?thesis .
    qed
    then have "(\<forall>r \<in> set ddf. rolled_key a b c r = Some k \<longrightarrow> market_cap r = None) \<longrightarrow>
            weighted_value row = NaN"
      using row(3) by (simp add: np_divide_def)
    moreover have "output_zarr fs = Absent \<longrightarrow>
            row \<in> set (stored_rows (save_output fault (agg_all ddf) fs))"
      using row(1) by (simp add: stored_rows_def save_output_creates)
    ultimately show ?thesis
      using row np_divide_zero [of num] by auto
  qed
  with geq show "case g of (k, num, mc) \<Rightarrow>
        mc = 0 \<longrightarrow>
        (\<exists>row \<in> set (agg_all ddf).
           natural_key row = render k \<and> weighted_value row = np_divide num 0 \<and>
           weighted_value row \<in> {NaN, PosInf, NegInf} \<and>
           ((\<forall>r \<in> set ddf. rolled_key a b c r = Some k \<longrightarrow> market_cap r = None) \<longrightarrow>
            weighted_value row = NaN) \<and>
           (output_zarr fs = Absent \<longrightarrow>
            row \<in> set (stored_rows (save_output fault (agg_all ddf) fs))))"
    by simp
qed

lemma enriched_example_eq:
  "enriched_example =
     [\<lparr>teo = 1, ticker = ''A'', expiry_label = Inl 30, value_type = ''atmVol'',
       val = Some (1 / 5), fs_industry_code = 1105, gics_sector_code = 15,
       gics_sector = ''Materials'', market_cap = Some 12000000000,
       size_category = ''Large Cap'', style = Some ''Growth''\<rparr>,
      \<lparr>teo = 1, ticker = ''C'', expiry_label = Inl 30, value_type = ''atmVol'',
       val = Some (1 / 2), fs_industry_code = 1305, gics_sector_code = 45,
       gics_sector = ''Information_Technology'', market_cap = None,
       size_category = ''Small Cap'', style = None\<rparr>,
      \<lparr>teo = 1, ticker = ''F'', expiry_label = Inl 30, value_type = ''atmVol'',
       val = Some (2 / 5), fs_industry_code = 1305, gics_sector_code = 45,
       gics_sector = ''Information_Technology'', market_cap = Some 4000000000,
       size_category = ''Mid Cap'', style = None\<rparr>]"
  by (simp add: enriched_example_def example_defs)

lemma agg_all_example:
  "agg_all enriched_example =
     [cube_example ''Materials'' ''Large Cap'' ''Growth'' (Number (1 / 5)),
      cube_example ''Total'' ''Total'' ''Total'' (Number (1 / 4)),
      cube_example ''Total'' ''Large Cap'' ''Growth'' (Number (1 / 5)),
      cube_example ''Materials'' ''Total'' ''Growth'' (Number (1 / 5)),
      cube_example ''Materials'' ''Large Cap'' ''Total'' (Number (1 / 5)),
      cube_example ''Information_Technology'' ''Small Cap'' ''Total'' NaN,
      cube_example ''Information_Technology'' ''Mid Cap'' ''Total'' (Number (2 / 5)),
      cube_example ''Total'' ''Total'' ''Growth'' (Number (1 / 5)),
      cube_example ''Total'' ''Large Cap'' ''Total'' (Number (1 / 5)),
      cube_example ''Total'' ''Small Cap'' ''Total'' NaN,
      cube_example ''Total'' ''Mid Cap'' ''Total'' (Number (2 / 5)),
      cube_example ''Materials'' ''Total'' ''Total'' (Number (1 / 5)),
      cube_example ''Information_Technology'' ''Total'' ''Total'' (Number (2 / 5))]"
  by (simp add: enriched_example_eq cube_example_def agg_all_def agg_main_def total_all_def
      total_sector_def total_size_def total_style_def total_sector_size_def
      total_sector_style_def total_size_style_def groupby_sum_def nansum_def
      weighted_value_num_def np_divide_def astype_str_def label_str_def str_nat.simps
      digit_char_def)

text \<open>CEX C6\<close>

theorem undefined_row_is_persisted:
  "map market_cap
     (filter (\<lambda>r. gics_sector r = ''Information_Technology'' \<and> size_category r = ''Small Cap'')
        enriched_example) = [None] \<and>
   cube_example ''Information_Technology'' ''Small Cap'' ''Total'' NaN
     \<in> set (stored_rows (save_output No_fault (agg_all enriched_example) no_files))"
  by (simp add: agg_all_example stored_rows_def save_output_def no_files_def write_log_def)
     (simp add: enriched_example_eq)

text \<open>C7\<close>

theorem append_fault_on_write:
  "output_zarr
     (append_to_existing_output Fault_on_write (agg_all enriched_example)
        \<lparr>output_zarr = Stored [old_cube_example], temp_zarr = None, logged = []\<rparr>) = Torn \<and>
   temp_zarr
     (append_to_existing_output Fault_on_write (agg_all enriched_example)
        \<lparr>output_zarr = Stored [old_cube_example], temp_zarr = None, logged = []\<rparr>) =
     Some (agg_all enriched_example) \<and>
   Warning ''Original dataset preserved at original location''
     \<in> set (logged
         (append_to_existing_output Fault_on_write (agg_all enriched_example)
            \<lparr>output_zarr = Stored [old_cube_example], temp_zarr = None, logged = []\<rparr>))"
  by (simp add: append_to_existing_output_def fall_back_def write_log_def Let_def)

lemma append_fault_before_write:
  assumes "fault = Fault_on_read \<or> fault = Fault_on_combine" and "output_zarr fs = Stored existing"
  shows "output_zarr (append_to_existing_output fault new_data fs) = Stored existing \<and>
         temp_zarr (append_to_existing_output fault new_data fs) = Some new_data \<and>
         Warning ''Created temporary dataset at output_path.temp - manual intervention may be needed''
           \<in> set (logged (append_to_existing_output fault new_data fs))"
  using assms
  by (auto simp: append_to_existing_output_def fall_back_def write_log_def Let_def)

lemma counts_append: "counts (xs @ ys) = counts xs @ counts ys"
  by (induction xs rule: counts.induct) simp_all

lemma logged_write_log: "logged (write_log msgs fs) = logged fs @ msgs"
  by (simp add: write_log_def)

lemma counts_fall_back: "counts (logged (fall_back new_data fs)) = counts (logged fs)"
  by (simp add: fall_back_def write_log_def counts_append)

lemma counts_append_output:
  "set (counts (logged (append_to_existing_output fault new_data fs))) \<subseteq> set (counts (logged fs))"
  by (cases "output_zarr fs")
     (auto simp: append_to_existing_output_def Let_def counts_fall_back logged_write_log
        counts_append)

lemma counts_save_output:
  "set (counts (logged (save_output fault agg fs))) \<subseteq>
   set (counts (logged fs)) \<union> {length agg}"
proof (cases "output_zarr fs")
  case Absent
  then show ?thesis
    by (auto simp: save_output_def write_log_def counts_append)
next
  case (Stored rows)
  with counts_append_output [of fault agg
      "write_log [Info_count ''Appending new records to existing dataset'' (length agg)] fs"]
  show ?thesis
    by (auto simp: save_output_def logged_write_log counts_append)
next
  case Torn
  with counts_append_output [of fault agg
      "write_log [Info_count ''Appending new records to existing dataset'' (length agg)] fs"]
  show ?thesis
    by (auto simp: save_output_def logged_write_log counts_append)
qed

lemma counts_main_produce:
  assumes "n \<in> set (counts (logged (main_produce r fs)))"
  shows "n \<in> set (counts (logged fs)) \<or>
         n = length (load_and_filter_data (surface r) (start_date r)) \<or>
         (\<exists>df. enriched_frame r (load_and_filter_data (surface r) (start_date r)) = Inr df \<and>
               n = length (agg_all df))"
proof -
  let ?df_all = "load_and_filter_data (surface r) (start_date r)"
  let ?fs1 = "write_log (start_messages (start_date r) @
                  [Info_count ''Loaded records after filtering'' (length ?df_all)]) fs"
  let ?fs2 = "write_log [Info_count ''Processing records'' (length ?df_all)] ?fs1"
  have c0: "counts (start_messages d) = []" for d
    by (cases d) (simp_all add: start_messages_def)
  have c1: "set (counts (logged ?fs1)) \<subseteq> set (counts (logged fs)) \<union> {length ?df_all}"
    by (simp add: logged_write_log counts_append c0)
  have c2: "set (counts (logged ?fs2)) \<subseteq> set (counts (logged fs)) \<union> {length ?df_all}"
    using c1 by (simp add: logged_write_log counts_append)
  show ?thesis
  proof (cases "?df_all = []")
    case True
    with assms c1 show ?thesis
      by (auto simp: main_produce_def Let_def logged_write_log counts_append)
  next
    case False
    show ?thesis
    proof (cases "enriched_frame r ?df_all")
      case (Inl e)
      with False assms c2 show ?thesis
        by (auto simp: main_produce_def Let_def)
    next
      case (Inr df)
      with False assms have "n \<in> set (counts (logged (save_output (append_fault r) (agg_all df) ?fs2)))"
        by (auto simp: main_produce_def Let_def logged_write_log counts_append)
      with counts_save_output [of "append_fault r" "agg_all df" ?fs2] c2 Inr show ?thesis
        by auto
    qed
  qed
qed

lemma enrich_row_melt_part: "enrich_row dt sd m = Some e \<Longrightarrow> melt_part e = m"
  by (cases m) (auto simp: enrich_row_Some melt_part_def)

lemma group_key_in_agg_all:
  assumes "r \<in> set ddf" and "rolled_key a b c r = Some k"
  shows "\<exists>row \<in> set (agg_all ddf). natural_key row = render k"
proof -
  from assms have "\<exists>num mc. (k, num, mc) \<in> set (groupby_sum (rolled_key a b c) ddf)"
    by (auto simp: groupby_sum_member)
  then show ?thesis
    using group_row_in_agg_all by blast
qed

text \<open>C9\<close>

theorem enrichment_drops:
  "(\<forall>e \<in> set (enrich dt sd df_melt).
      melt_part e \<in> set df_melt \<and> teo e \<in> set (dt_teo dt) \<and> ticker e \<in> set (dt_ticker dt) \<and>
      val e \<noteq> None \<and>
      dt_fs_industry_code dt (teo e) (ticker e) = Some (fs_industry_code e) \<and>
      map_of fs_industry_to_gic_code (fs_industry_code e) = Some (Some (gics_sector_code e)) \<and>
      map_of gic_code_to_gic_name (gics_sector_code e) = Some (gics_sector e) \<and>
      market_cap e = dt_mktcap dt (teo e) (ticker e) \<and>
      size_category e = classify_size (market_cap e) \<and>
      (market_cap e = None \<longrightarrow> size_category e = ''Small Cap'' \<and> weighted_value_num e = None)) \<and>
   (\<forall>m \<in> set df_melt.
      teo m \<in> set (dt_teo dt) \<and> ticker m \<in> set (dt_ticker dt) \<and> val m \<noteq> None \<and>
      (\<exists>code sector_code sector.
         dt_fs_industry_code dt (teo m) (ticker m) = Some code \<and>
         map_of fs_industry_to_gic_code code = Some (Some sector_code) \<and>
         map_of gic_code_to_gic_name sector_code = Some sector) \<longrightarrow>
      (\<exists>e \<in> set (enrich dt sd df_melt). melt_part e = m)) \<and>
   (\<forall>n \<in> set (counts (logged (main_produce r fs))).
      n \<in> set (counts (logged fs)) \<or>
      n = length (load_and_filter_data (surface r) (start_date r)) \<or>
      (\<exists>df. enriched_frame r (load_and_filter_data (surface r) (start_date r)) = Inr df \<and>
            n = length (agg_all df)))"
proof (intro conjI ballI impI)
  fix e assume e: "e \<in> set (enrich dt sd df_melt)"
  then obtain m where m: "m \<in> set df_melt" "enrich_row dt sd m = Some e"
    by (auto simp: enrich_member)
  from e show "melt_part e \<in> set df_melt"
    by (rule enrich_from_melt)
  from m(2) show "teo e \<in> set (dt_teo dt)" "ticker e \<in> set (dt_ticker dt)" "val e \<noteq> None"
    "dt_fs_industry_code dt (teo e) (ticker e) = Some (fs_industry_code e)"
    "map_of fs_industry_to_gic_code (fs_industry_code e) = Some (Some (gics_sector_code e))"
    "map_of gic_code_to_gic_name (gics_sector_code e) = Some (gics_sector e)"
    "market_cap e = dt_mktcap dt (teo e) (ticker e)"
    "size_category e = classify_size (market_cap e)"
    by (auto simp: enrich_row_Some)
  then show "size_category e = ''Small Cap''" "weighted_value_num e = None"
    if "market_cap e = None"
    using that by (simp_all add: classify_size_def float_ge_def weighted_value_num_missing)
next
  fix m
  assume m: "m \<in> set df_melt"
    and ok: "teo m \<in> set (dt_teo dt) \<and> ticker m \<in> set (dt_ticker dt) \<and> val m \<noteq> None \<and>
      (\<exists>code sector_code sector.
         dt_fs_industry_code dt (teo m) (ticker m) = Some code \<and>
         map_of fs_industry_to_gic_code code = Some (Some sector_code) \<and>
         map_of gic_code_to_gic_name sector_code = Some sector)"
  then obtain e where e: "enrich_row dt sd m = Some e"
    unfolding enrich_row_Some by blast
  with m have "e \<in> set (enrich dt sd df_melt)"
    by (auto simp: enrich_member)
  with e show "\<exists>e \<in> set (enrich dt sd df_melt). melt_part e = m"
    using enrich_row_melt_part by blast
next
  fix n assume "n \<in> set (counts (logged (main_produce r fs)))"
  then show "n \<in> set (counts (logged fs)) \<or>
      n = length (load_and_filter_data (surface r) (start_date r)) \<or>
      (\<exists>df. enriched_frame r (load_and_filter_data (surface r) (start_date r)) = Inr df \<and>
            n = length (agg_all df))"
    by (rule counts_main_produce)
qed

theorem enrichment_drops_witness:
  "map ticker enriched_example = [''A'', ''C'', ''F''] \<and>
   map market_cap enriched_example = [Some 12000000000, None, Some 4000000000] \<and>
   map size_category enriched_example = [''Large Cap'', ''Small Cap'', ''Mid Cap''] \<and>
   map weighted_value_num enriched_example = [Some 2400000000, None, Some 1600000000] \<and>
   counts (logged (main_produce
             \<lparr>surface = [], start_date = None, ds_daily_ticker = daily_example,
              style_daily = style_example, append_fault = No_fault\<rparr> no_files)) = [0]"
  using enrichment_drops [of daily_example style_example
      "[melt_example ''A'' (1 / 5), melt_example ''B'' (1 / 5), melt_example ''C'' (1 / 2),
        melt_example ''D'' (1 / 5), melt_example ''E'' (1 / 5), melt_example ''F'' (2 / 5)]"
      "\<lparr>surface = [], start_date = None, ds_daily_ticker = daily_example,
        style_daily = style_example, append_fault = No_fault\<rparr>" no_files]
  by (simp add: enriched_example_eq weighted_value_num_def main_produce_def
      load_and_filter_data_def start_messages_def write_log_def no_files_def)

theorem missing_market_cap_row_is_kept:
  "dt_mktcap daily_example 1 ''C'' = None \<and>
   map ticker enriched_example = [''A'', ''C'', ''F''] \<and>
   cube_example ''Total'' ''Small Cap'' ''Total'' NaN \<in> set (agg_all enriched_example)"
  by (simp add: agg_all_example) (simp add: enriched_example_eq daily_example_def)

text \<open>C10\<close>

theorem missing_market_cap_is_small_cap:
  "classify_size None = ''Small Cap'' \<and>
   (\<forall>m \<in> set df_melt.
      teo m \<in> set (dt_teo dt) \<and> ticker m \<in> set (dt_ticker dt) \<and> val m \<noteq> None \<and>
      (\<exists>code sector_code sector.
         dt_fs_industry_code dt (teo m) (ticker m) = Some code \<and>
         map_of fs_industry_to_gic_code code = Some (Some sector_code) \<and>
         map_of gic_code_to_gic_name sector_code = Some sector) \<and>
      dt_mktcap dt (teo m) (ticker m) = None \<longrightarrow>
      (\<exists>e \<in> set (enrich dt sd df_melt). melt_part e = m \<and> market_cap e = None)) \<and>
   (\<forall>e \<in> set (enrich dt sd df_melt).
      market_cap e = None \<longrightarrow>
      size_category e = ''Small Cap'' \<and>
      (\<exists>row \<in> set (agg_all (enrich dt sd df_melt)).
         natural_key row =
           (teo e, ''Total'', ''Small Cap'', ''Total'', label_str (expiry_label e),
            value_type e)) \<and>
      (\<forall>sty. style e = Some sty \<longrightarrow>
         (\<exists>row \<in> set (agg_all (enrich dt sd df_melt)).
            natural_key row =
              (teo e, gics_sector e, ''Small Cap'', sty, label_str (expiry_label e),
               value_type e))))"
proof (intro conjI ballI impI allI)
  show "classify_size None = ''Small Cap''"
    by (simp add: classify_size_def float_ge_def)
next
  fix m
  assume m: "m \<in> set df_melt"
    and ok: "teo m \<in> set (dt_teo dt) \<and> ticker m \<in> set (dt_ticker dt) \<and> val m \<noteq> None \<and>
      (\<exists>code sector_code sector.
         dt_fs_industry_code dt (teo m) (ticker m) = Some code \<and>
         map_of fs_industry_to_gic_code code = Some (Some sector_code) \<and>
         map_of gic_code_to_gic_name sector_code = Some sector) \<and>
      dt_mktcap dt (teo m) (ticker m) = None"
  then obtain e where e: "enrich_row dt sd m = Some e"
    unfolding enrich_row_Some by blast
  with ok have "market_cap e = None"
    by (auto simp: enrich_row_Some)
  moreover from e m have "e \<in> set (enrich dt sd df_melt)"
    by (auto simp: enrich_member)
  ultimately show "\<exists>e \<in> set (enrich dt sd df_melt). melt_part e = m \<and> market_cap e = None"
    using e enrich_row_melt_part by blast
next
  fix e assume e: "e \<in> set (enrich dt sd df_melt)" and none: "market_cap e = None"
  then obtain m where "enrich_row dt sd m = Some e"
    by (auto simp: enrich_member)
  with none show small: "size_category e = ''Small Cap''"
    by (auto simp: enrich_row_Some classify_size_def float_ge_def)
  have "rolled_key True False True e =
        Some (teo e, ''Total'', ''Small Cap'', ''Total'', expiry_label e, value_type e)"
    using small by (simp add: rolled_key_def)
  from group_key_in_agg_all [OF e this]
  show "\<exists>row \<in> set (agg_all (enrich dt sd df_melt)).
         natural_key row =
           (teo e, ''Total'', ''Small Cap'', ''Total'', label_str (expiry_label e),
            value_type e)"
    by (simp add: render_def)
  fix sty assume "style e = Some sty"
  then have "rolled_key False False False e =
        Some (teo e, gics_sector e, ''Small Cap'', sty, expiry_label e, value_type e)"
    using small by (simp add: rolled_key_def)
  from group_key_in_agg_all [OF e this]
  show "\<exists>row \<in> set (agg_all (enrich dt sd df_melt)).
            natural_key row =
              (teo e, gics_sector e, ''Small Cap'', sty, label_str (expiry_label e),
               value_type e)"
    by (simp add: render_def)
qed

theorem missing_market_cap_is_small_cap_witness:
  "dt_mktcap daily_example 1 ''C'' = None \<and>
   map (\<lambda>e. (ticker e, market_cap e, size_category e)) enriched_example =
     [(''A'', Some 12000000000, ''Large Cap''), (''C'', None, ''Small Cap''),
      (''F'', Some 4000000000, ''Mid Cap'')] \<and>
   natural_key (cube_example ''Total'' ''Small Cap'' ''Total'' NaN) =
     (1, ''Total'', ''Small Cap'', ''Total'', ''30'', ''atmVol'') \<and>
   cube_example ''Total'' ''Small Cap'' ''Total'' NaN \<in> set (agg_all enriched_example)"
  using missing_market_cap_is_small_cap [of
      "[melt_example ''A'' (1 / 5), melt_example ''B'' (1 / 5), melt_example ''C'' (1 / 2),
        melt_example ''D'' (1 / 5), melt_example ''E'' (1 / 5), melt_example ''F'' (2 / 5)]"
      daily_example style_example]
  by (simp add: agg_all_example)
     (simp add: enriched_example_eq daily_example_def cube_example_def natural_key_def)

end
